theory Spec2Isabelle
  imports Complex_Main
begin

section \<open>Values and the error taxonomy (exceptions.py)\<close>

text \<open>
  Parsed JSON bodies, as \<^verbatim>\<open>response.json()\<close> hands them to the client. A Python dict
  is kept as an association list (insertion order, unique keys).
\<close>

datatype json =
    JNull
  | JBool bool
  | JInt int
  | JFloat real
  | JStr string
  | JArr "json list"
  | JObj "(string \<times> json) list"

datatype error_kind =
    GotrsErrorK
  | ValidationErrorK
  | NetworkErrorK
  | TimeoutErrorK
  | AuthenticationErrorK
  | NotFoundErrorK
  | UnauthorizedErrorK
  | ForbiddenErrorK
  | RateLimitErrorK
  | ServerErrorK
  | ConfigurationErrorK
  | WebSocketErrorK

text \<open>
  The attributes every \<^verbatim>\<open>GotrsError\<close> carries, plus \<^verbatim>\<open>retry_after\<close> of
  \<^verbatim>\<open>RateLimitError\<close>. The message, code and details come from a JSON body at the call
  sites, so they are JSON values here.
\<close>

record gotrs_error =
  err_kind :: error_kind
  err_message :: json
  err_status_code :: "int option"
  err_code :: "json option"
  err_details :: "json option"
  err_response_data :: "json option"
  err_retry_after :: "int option"

text \<open>\<^verbatim>\<open>GotrsError.__init__\<close>: every optional attribute defaults to None.\<close>

definition GotrsError :: "error_kind \<Rightarrow> json \<Rightarrow> gotrs_error" where
  "GotrsError k m =
     \<lparr>err_kind = k, err_message = m, err_status_code = None, err_code = None,
      err_details = None, err_response_data = None, err_retry_after = None\<rparr>"

text \<open>
  What a call can raise: an error of the taxonomy, the \<^verbatim>\<open>AttributeError\<close> of a method
  call on a value that lacks the method, or another exception passed through unchanged.
\<close>

datatype py_exc =
    Gotrs gotrs_error
  | AttributeError string
  | OtherException string

definition AuthenticationError :: "string \<Rightarrow> py_exc" where
  "AuthenticationError m = Gotrs (GotrsError AuthenticationErrorK (JStr m))"

section \<open>Floats and datetimes\<close>

text \<open>
  A Python float is an IEEE 754 binary64 number. A finite one is kept as the real number
  it denotes, and every float operation the code uses (true division of integers, float
  addition) is the exact result rounded to the nearest float, ties to the even mantissa.
  The timestamps of datetimes (years 1 to 9999) stay below \<open>2^39\<close> seconds, far from
  overflow.
\<close>

function bit_length :: "int \<Rightarrow> nat" where
  "bit_length n = (if n \<le> 0 then 0 else Suc (bit_length (n div 2)))"
  by pat_completeness auto

termination
  by (relation "measure nat") auto

declare bit_length.simps [simp del]

definition pow2 :: "int \<Rightarrow> real" where
  "pow2 e = (if 0 \<le> e then 2 ^ nat e else 1 / 2 ^ nat (- e))"

text \<open>For \<open>x > 0\<close>, the exponent \<open>e\<close> with \<open>2^e \<le> x < 2^(e+1)\<close>.\<close>

definition binary_exponent :: "real \<Rightarrow> int" where
  "binary_exponent x =
     (if 1 \<le> x then int (bit_length \<lfloor>x\<rfloor>) - 1
      else - int (bit_length (\<lceil>1 / x\<rceil> - 1)))"

definition round_half_even :: "real \<Rightarrow> int" where
  "round_half_even r =
     (let f = \<lfloor>r\<rfloor>; d = r - of_int f
      in if d < 1 / 2 then f
         else if 1 / 2 < d then f + 1
         else if even f then f else f + 1)"

text \<open>
  Rounding to binary64: 53 bits of mantissa, the least exponent of a normal number is
  \<open>-1022\<close>, below it the spacing stays that of the subnormal numbers.
\<close>

definition round_double :: "real \<Rightarrow> real" where
  "round_double x =
     (if x = 0 then 0
      else (let e = max (binary_exponent \<bar>x\<bar>) (- 1022);
                q = pow2 (e - 52)
            in q * of_int (round_half_even (x / q))))"

text \<open>
  A datetime: an aware one is the number of microseconds from the epoch to its instant; a
  naive one is read as local time, and is kept as the POSIX seconds the platform gives for
  its wall-clock fields, and its microsecond field.
\<close>

datatype datetime =
    Aware int
  | Naive int nat

text \<open>
  \<^verbatim>\<open>datetime.timestamp()\<close>: \<^verbatim>\<open>(self - _EPOCH).total_seconds()\<close>, the microseconds
  divided by \<open>10^6\<close>, for an aware datetime; the seconds plus \<^verbatim>\<open>microsecond / 1e6\<close> for a
  naive one.
\<close>

definition timestamp :: "datetime \<Rightarrow> real" where
  "timestamp d =
     (case d of
        Aware us \<Rightarrow> round_double (of_int us / 1000000)
      | Naive s us \<Rightarrow> round_double (of_int s + round_double (of_nat us / 1000000)))"

text \<open>Float addition \<^verbatim>\<open>x + y\<close>.\<close>

definition float_add :: "real \<Rightarrow> real \<Rightarrow> real" where
  "float_add x y = round_double (x + y)"


subsection \<open>Rounding is monotone\<close>

lemma pow2_powr: "pow2 e = 2 powr (of_int e)"
  by (simp add: pow2_def powr_int)

lemma pow2_pos: "0 < pow2 e"
  by (simp add: pow2_powr)

lemma pow2_nonneg: "0 \<le> pow2 e"
  by (simp add: pow2_powr)

lemma pow2_neq_0: "pow2 e \<noteq> 0"
  by (simp add: pow2_powr)

lemma pow2_mono: "a \<le> b \<Longrightarrow> pow2 a \<le> pow2 b"
  by (simp add: pow2_powr)

lemma pow2_div: "pow2 a / pow2 b = pow2 (a - b)"
  by (simp add: pow2_powr powr_diff)

lemma pow2_nat: "0 \<le> e \<Longrightarrow> pow2 e = of_int (2 ^ nat e)"
  by (simp add: pow2_def)

lemma bit_length_bounds:
  "0 < n \<Longrightarrow> 2 ^ (bit_length n - 1) \<le> n \<and> n < 2 ^ bit_length n"
proof (induction n rule: bit_length.induct)
  case (1 n)
  show ?case
  proof (cases "n div 2 \<le> 0")
    case True
    with 1(2) have "n = 1" by presburger
    then show ?thesis by (simp add: bit_length.simps)
  next
    case False
    then have pos: "0 < n div 2" by simp
    from 1(1) 1(2) pos
    have ih: "2 ^ (bit_length (n div 2) - 1) \<le> n div 2" "n div 2 < 2 ^ bit_length (n div 2)"
      by auto
    have bl: "bit_length n = Suc (bit_length (n div 2))"
      using 1(2) by (subst bit_length.simps) simp
    have blp: "0 < bit_length (n div 2)"
      using pos by (subst bit_length.simps) simp
    then obtain k where k: "bit_length (n div 2) = Suc k" by (cases "bit_length (n div 2)") auto
    from ih k have "2 * 2 ^ k \<le> 2 * (n div 2)" by simp
    also have "\<dots> \<le> n" by presburger
    finally have lo: "2 ^ (bit_length n - 1) \<le> n" by (simp add: bl k)
    from ih(2) have "n div 2 + 1 \<le> 2 ^ bit_length (n div 2)" by simp
    then have "2 * (n div 2) + 2 \<le> 2 * 2 ^ bit_length (n div 2)" by simp
    moreover have "n < 2 * (n div 2) + 2" by presburger
    ultimately have hi: "n < 2 ^ bit_length n" by (simp add: bl)
    from lo hi show ?thesis by simp
  qed
qed

lemma binary_exponent_bounds:
  assumes "0 < x"
  shows "pow2 (binary_exponent x) \<le> x \<and> x < pow2 (binary_exponent x + 1)"
proof (cases "1 \<le> x")
  case True
  let ?n = "\<lfloor>x\<rfloor>"
  from True have n: "0 < ?n" by simp
  from bit_length_bounds [OF n]
  have lo: "2 ^ (bit_length ?n - 1) \<le> ?n" and hi: "?n < 2 ^ bit_length ?n" by simp_all
  from n have blp: "0 < bit_length ?n" by (subst bit_length.simps) simp
  have e: "binary_exponent x = int (bit_length ?n) - 1"
    using True by (simp add: binary_exponent_def)
  have "(of_int (2 ^ (bit_length ?n - 1)) :: real) \<le> of_int ?n" using lo by (simp only: of_int_le_iff)
  also have "of_int ?n \<le> x" by simp
  finally have 1: "pow2 (binary_exponent x) \<le> x"
    using blp by (simp add: e pow2_def nat_diff_distrib')
  from hi have "?n + 1 \<le> 2 ^ bit_length ?n" by linarith
  then have "(of_int (?n + 1) :: real) \<le> of_int (2 ^ bit_length ?n)" by (simp only: of_int_le_iff)
  then have c: "(of_int ?n :: real) + 1 \<le> 2 ^ bit_length ?n" by simp
  have d: "x < of_int ?n + 1" by linarith
  from c d have "x < 2 ^ bit_length ?n" by linarith
  then have 2: "x < pow2 (binary_exponent x + 1)"
    by (simp add: e pow2_def)
  from 1 2 show ?thesis by simp
next
  case False
  with assms have x1: "x < 1" by simp
  let ?m = "\<lceil>1 / x\<rceil>"
  let ?n = "?m - 1"
  from assms x1 have inv: "1 < 1 / x" by simp
  then have m2: "2 \<le> ?m" by linarith
  then have n: "0 < ?n" by simp
  from bit_length_bounds [OF n]
  have lo: "2 ^ (bit_length ?n - 1) \<le> ?n" and hi: "?n < 2 ^ bit_length ?n" by simp_all
  from n have blp: "0 < bit_length ?n" by (subst bit_length.simps) simp
  have e: "binary_exponent x = - int (bit_length ?n)"
    using False by (simp add: binary_exponent_def)
  from hi have "?n + 1 \<le> 2 ^ bit_length ?n" by linarith
  then have "(of_int (?n + 1) :: real) \<le> of_int (2 ^ bit_length ?n)" by (simp only: of_int_le_iff)
  then have c: "(of_int ?m :: real) \<le> 2 ^ bit_length ?n" by simp
  have d: "1 / x \<le> of_int ?m" by linarith
  from c d have "1 / x \<le> 2 ^ bit_length ?n" by linarith
  with assms blp have 1: "pow2 (binary_exponent x) \<le> x"
    by (simp add: e pow2_def field_simps)
  have "(of_int (2 ^ (bit_length ?n - 1)) :: real) \<le> of_int ?n" using lo by (simp only: of_int_le_iff)
  then have a: "(2::real) ^ (bit_length ?n - 1) \<le> of_int ?m - 1" by simp
  have b: "(of_int ?m :: real) - 1 < 1 / x" by linarith
  from a b have "2 ^ (bit_length ?n - 1) < 1 / x" by linarith
  with assms blp x1 have 2: "x < pow2 (binary_exponent x + 1)"
    by (simp add: e pow2_def nat_diff_distrib' field_simps)
  from 1 2 show ?thesis by simp
qed

lemma binary_exponent_unique:
  assumes "pow2 e \<le> x" and "x < pow2 (e + 1)"
  shows "binary_exponent x = e"
proof -
  from assms(1) have pos: "0 < x" using pow2_pos [of e] by linarith
  note b = binary_exponent_bounds [OF pos]
  have "\<not> binary_exponent x + 1 \<le> e"
  proof
    assume "binary_exponent x + 1 \<le> e"
    then have "pow2 (binary_exponent x + 1) \<le> pow2 e" by (rule pow2_mono)
    with b assms(1) show False by linarith
  qed
  moreover have "\<not> e + 1 \<le> binary_exponent x"
  proof
    assume "e + 1 \<le> binary_exponent x"
    then have "pow2 (e + 1) \<le> pow2 (binary_exponent x)" by (rule pow2_mono)
    with b assms(2) show False by linarith
  qed
  ultimately show ?thesis by linarith
qed

lemma binary_exponent_mono:
  assumes "0 < x" and "x \<le> y"
  shows "binary_exponent x \<le> binary_exponent y"
proof (rule ccontr)
  assume "\<not> binary_exponent x \<le> binary_exponent y"
  then have "binary_exponent y + 1 \<le> binary_exponent x" by simp
  then have "pow2 (binary_exponent y + 1) \<le> pow2 (binary_exponent x)" by (rule pow2_mono)
  moreover from assms have "0 < y" by simp
  ultimately show False
    using binary_exponent_bounds [OF assms(1)] binary_exponent_bounds [OF \<open>0 < y\<close>] assms(2)
    by linarith
qed

lemma round_half_even_of_int [simp]: "round_half_even (of_int z) = z"
  by (simp add: round_half_even_def)

lemma round_half_even_mono:
  assumes "r \<le> s"
  shows "round_half_even r \<le> round_half_even s"
proof (cases "\<lfloor>r\<rfloor> = \<lfloor>s\<rfloor>")
  case True
  with assms show ?thesis
    by (auto simp: round_half_even_def Let_def)
next
  case False
  with assms have "\<lfloor>r\<rfloor> + 1 \<le> \<lfloor>s\<rfloor>"
    using floor_mono [OF assms] by linarith
  moreover have "round_half_even r \<le> \<lfloor>r\<rfloor> + 1"
    by (auto simp: round_half_even_def Let_def)
  moreover have "\<lfloor>s\<rfloor> \<le> round_half_even s"
    by (auto simp: round_half_even_def Let_def)
  ultimately show ?thesis by linarith
qed

lemma round_half_even_minus: "round_half_even (- r) = - round_half_even r"
proof (cases "r = of_int \<lfloor>r\<rfloor>")
  case True
  then obtain z where "r = of_int z" ..
  then have "- r = of_int (- z)" by simp
  then show ?thesis using \<open>r = of_int z\<close> by (simp only: round_half_even_of_int)
next
  case False
  then have fl: "\<lfloor>- r\<rfloor> = - \<lfloor>r\<rfloor> - 1"
    by (metis ceiling_altdef ceiling_def add_diff_cancel_right' minus_diff_eq
        uminus_add_conv_diff)
  have "even (- \<lfloor>r\<rfloor> - 1) = odd \<lfloor>r\<rfloor>" by simp
  with fl show ?thesis
    by (auto simp: round_half_even_def Let_def)
qed

lemma pow2_mult: "pow2 a * pow2 b = pow2 (a + b)"
  by (simp add: pow2_powr powr_add)

lemma round_double_unfold:
  "x \<noteq> 0 \<Longrightarrow>
   round_double x
   = pow2 (max (binary_exponent \<bar>x\<bar>) (- 1022) - 52)
     * of_int (round_half_even (x / pow2 (max (binary_exponent \<bar>x\<bar>) (- 1022) - 52)))"
  by (simp add: round_double_def Let_def)

lemma round_double_eq:
  assumes "pow2 e \<le> \<bar>x\<bar>" and "\<bar>x\<bar> < pow2 (e + 1)" and "- 1022 \<le> e"
  shows "round_double x = pow2 (e - 52) * of_int (round_half_even (x / pow2 (e - 52)))"
proof -
  from assms(1) have "x \<noteq> 0" using pow2_pos [of e] by linarith
  moreover from assms(1,2) have "binary_exponent \<bar>x\<bar> = e" by (rule binary_exponent_unique)
  ultimately show ?thesis using assms(3) by (simp add: round_double_unfold max_def)
qed

lemma round_double_minus: "round_double (- x) = - round_double x"
  by (cases "x = 0") (simp_all add: round_double_def Let_def round_half_even_minus)

lemma round_double_pos_lower:
  assumes "pow2 e \<le> x" and "binary_exponent x = e" and "- 1022 \<le> e"
  shows "pow2 e \<le> round_double x"
proof -
  from assms(1) have pos: "0 < x" using pow2_pos [of e] by linarith
  let ?q = "pow2 (e - 52)"
  have rd: "round_double x = ?q * of_int (round_half_even (x / ?q))"
    using pos assms(2,3) by (simp add: round_double_unfold max_def)
  have "pow2 e / ?q = pow2 52" by (simp add: pow2_div)
  also have "\<dots> = of_int (2 ^ 52)" by (simp add: pow2_def)
  finally have q: "pow2 e / ?q = of_int (2 ^ 52)" .
  from assms(1) have "pow2 e / ?q \<le> x / ?q" by (rule divide_right_mono) (rule pow2_nonneg)
  then have "round_half_even (pow2 e / ?q) \<le> round_half_even (x / ?q)"
    by (rule round_half_even_mono)
  then have "2 ^ 52 \<le> round_half_even (x / ?q)"
    by (simp only: q round_half_even_of_int)
  then have "(2 ^ 52 :: real) \<le> of_int (round_half_even (x / ?q))"
    by (metis of_int_le_iff of_int_numeral of_int_power)
  then have "?q * 2 ^ 52 \<le> ?q * of_int (round_half_even (x / ?q))"
    by (simp add: mult_left_mono pow2_nonneg)
  moreover have "?q * 2 ^ 52 = pow2 e"
    using pow2_mult [of "e - 52" 52] by (simp add: pow2_def [of 52])
  ultimately show ?thesis by (simp add: rd)
qed

lemma round_double_pos_upper:
  assumes "0 < x" and "x \<le> pow2 (e + 1)" and "max (binary_exponent x) (- 1022) = e"
  shows "round_double x \<le> pow2 (e + 1)"
proof -
  let ?q = "pow2 (e - 52)"
  have rd: "round_double x = ?q * of_int (round_half_even (x / ?q))"
    using assms(1,3) by (simp add: round_double_unfold)
  have "pow2 (e + 1) / ?q = pow2 53" by (simp add: pow2_div)
  also have "\<dots> = of_int (2 ^ 53)" by (simp add: pow2_def)
  finally have q: "pow2 (e + 1) / ?q = of_int (2 ^ 53)" .
  from assms(2) have "x / ?q \<le> pow2 (e + 1) / ?q" by (rule divide_right_mono) (rule pow2_nonneg)
  then have "round_half_even (x / ?q) \<le> round_half_even (pow2 (e + 1) / ?q)"
    by (rule round_half_even_mono)
  then have "round_half_even (x / ?q) \<le> 2 ^ 53"
    by (simp only: q round_half_even_of_int)
  then have "of_int (round_half_even (x / ?q)) \<le> (2 ^ 53 :: real)"
    by (metis of_int_le_iff of_int_numeral of_int_power)
  then have "?q * of_int (round_half_even (x / ?q)) \<le> ?q * 2 ^ 53"
    by (simp add: mult_left_mono pow2_nonneg)
  moreover have "?q * 2 ^ 53 = pow2 (e + 1)"
    using pow2_mult [of "e - 52" 53] by (simp add: pow2_def [of 53] add.commute)
  ultimately show ?thesis by (simp add: rd)
qed

lemma round_double_nonneg:
  assumes "0 \<le> x"
  shows "0 \<le> round_double x"
proof (cases "x = 0")
  case True
  then show ?thesis by (simp add: round_double_def)
next
  case False
  let ?q = "pow2 (max (binary_exponent \<bar>x\<bar>) (- 1022) - 52)"
  from assms have "0 \<le> x / ?q" by (simp add: pow2_nonneg)
  then have "round_half_even 0 \<le> round_half_even (x / ?q)" by (rule round_half_even_mono)
  then have "0 \<le> round_half_even (x / ?q)"
    using round_half_even_of_int [of 0] by simp
  then show ?thesis using False by (simp add: round_double_unfold pow2_nonneg)
qed

lemma round_double_mono_pos:
  assumes "0 < x" and "x \<le> y"
  shows "round_double x \<le> round_double y"
proof -
  from assms have ypos: "0 < y" by simp
  let ?ex = "max (binary_exponent x) (- 1022)"
  let ?ey = "max (binary_exponent y) (- 1022)"
  have le: "?ex \<le> ?ey"
    using binary_exponent_mono [OF assms] by simp
  show ?thesis
  proof (cases "?ex = ?ey")
    case True
    let ?q = "pow2 (?ey - 52)"
    from assms(2) have "x / ?q \<le> y / ?q" by (rule divide_right_mono) (rule pow2_nonneg)
    then have "round_half_even (x / ?q) \<le> round_half_even (y / ?q)"
      by (rule round_half_even_mono)
    then have "?q * of_int (round_half_even (x / ?q)) \<le> ?q * of_int (round_half_even (y / ?q))"
      by (simp add: mult_left_mono pow2_nonneg)
    with True assms(1) ypos show ?thesis by (simp add: round_double_unfold)
  next
    case False
    with le have lt: "?ex + 1 \<le> ?ey" by simp
    then have ey: "binary_exponent y = ?ey" "- 1022 \<le> ?ey" by (simp_all add: max_def split: if_splits)
    from binary_exponent_bounds [OF ypos] have "pow2 (binary_exponent y) \<le> y" by simp
    with ey have "pow2 ?ey \<le> y" by simp
    from round_double_pos_lower [OF this _ ey(2)] ey(1)
    have low: "pow2 ?ey \<le> round_double y" by simp
    from binary_exponent_bounds [OF assms(1)] have "x < pow2 (binary_exponent x + 1)" by simp
    also have "\<dots> \<le> pow2 (?ex + 1)" by (rule pow2_mono) simp
    finally have "x \<le> pow2 (?ex + 1)" by simp
    from round_double_pos_upper [OF assms(1) this refl]
    have "round_double x \<le> pow2 (?ex + 1)" .
    also have "\<dots> \<le> pow2 ?ey" using lt by (rule pow2_mono)
    finally show ?thesis using low by linarith
  qed
qed

lemma round_double_mono:
  assumes "x \<le> y"
  shows "round_double x \<le> round_double y"
proof -
  consider "0 < x" | "x \<le> 0" "0 \<le> y" | "y < 0" by linarith
  then show ?thesis
  proof cases
    case 1
    then show ?thesis using assms by (rule round_double_mono_pos)
  next
    case 2
    from 2(1) have "0 \<le> round_double (- x)" by (intro round_double_nonneg) simp
    then have "round_double x \<le> 0" by (simp add: round_double_minus)
    moreover from 2(2) have "0 \<le> round_double y" by (rule round_double_nonneg)
    ultimately show ?thesis by linarith
  next
    case 3
    then have "0 < - y" "- y \<le> - x" using assms by simp_all
    then have "round_double (- y) \<le> round_double (- x)" by (rule round_double_mono_pos)
    then show ?thesis by (simp add: round_double_minus)
  qed
qed

lemma round_double_of_int:
  assumes "\<bar>n\<bar> < 2 ^ 53"
  shows "round_double (of_int n) = of_int n"
proof (cases "n = 0")
  case True
  then show ?thesis by (simp add: round_double_def)
next
  case False
  let ?x = "\<bar>of_int n :: real\<bar>"
  let ?e = "binary_exponent ?x"
  from False have pos: "0 < ?x" by simp
  from False have "1 \<le> \<bar>n\<bar>" by linarith
  then have one: "1 \<le> ?x" by (metis of_int_1_le_iff of_int_abs)
  have e0: "0 \<le> ?e"
  proof (rule ccontr)
    assume "\<not> 0 \<le> ?e"
    then have "?e + 1 \<le> 0" by simp
    then have "pow2 (?e + 1) \<le> pow2 0" by (rule pow2_mono)
    with binary_exponent_bounds [OF pos] one show False by (simp add: pow2_def)
  qed
  have e52: "?e \<le> 52"
  proof (rule ccontr)
    assume "\<not> ?e \<le> 52"
    then have "53 \<le> ?e" by simp
    then have "pow2 53 \<le> pow2 ?e" by (rule pow2_mono)
    moreover from assms have "?x < 2 ^ 53"
      by (metis of_int_abs of_int_less_iff of_int_numeral of_int_power)
    ultimately show False using binary_exponent_bounds [OF pos] by (simp add: pow2_def)
  qed
  let ?k = "nat (52 - ?e)"
  have q: "pow2 (?e - 52) = 1 / 2 ^ ?k"
    using e52 by (cases "?e = 52") (simp_all add: pow2_def)
  have "of_int n / pow2 (?e - 52) = (of_int (n * 2 ^ ?k) :: real)"
    by (simp add: q)
  then have "round_half_even (of_int n / pow2 (?e - 52)) = n * 2 ^ ?k"
    by (simp only: round_half_even_of_int)
  moreover have "round_double (of_int n)
        = pow2 (?e - 52) * of_int (round_half_even (of_int n / pow2 (?e - 52)))"
    using False e0 by (simp add: round_double_unfold max_def)
  ultimately show ?thesis by (simp add: q)
qed

lemma timestamp_whole_seconds:
  "\<bar>s\<bar> < 2 ^ 53 \<Longrightarrow> timestamp (Aware (s * 1000000)) = of_int s"
  by (simp add: timestamp_def round_double_of_int)

lemma buffer_time_whole_seconds:
  assumes "\<bar>s\<bar> < 2 ^ 52"
  shows "float_add (timestamp (Aware (s * 1000000))) 60 = of_int (s + 60)"
proof -
  from assms have s: "\<bar>s\<bar> < 2 ^ 53" and s60: "\<bar>s + 60\<bar> < 2 ^ 53" by simp_all
  from s60 have "round_double (of_int s + 60) = of_int (s + 60)"
    using round_double_of_int [of "s + 60"] by simp
  with s show ?thesis
    by (simp add: float_add_def timestamp_whole_seconds)
qed

lemma buffer_time_mono:
  assumes "now \<le> now'"
  shows "float_add (timestamp (Aware now)) 60 \<le> float_add (timestamp (Aware now')) 60"
proof -
  from assms have "(of_int now :: real) / 1000000 \<le> of_int now' / 1000000"
    by (simp add: divide_right_mono)
  then have "timestamp (Aware now) \<le> timestamp (Aware now')"
    unfolding timestamp_def datetime.case by (rule round_double_mono)
  then have "timestamp (Aware now) + 60 \<le> timestamp (Aware now') + 60" by simp
  then show ?thesis unfolding float_add_def by (rule round_double_mono)
qed

section \<open>Authenticators (auth.py)\<close>

text \<open>
  The clock reading \<^verbatim>\<open>datetime.now(timezone.utc)\<close> is the parameter \<open>now\<close>: the
  microseconds from the epoch to the moment of the call.
\<close>

datatype expiry_value =
    ExpiresStr string
  | ExpiresNative "datetime option"

text \<open>
  The mapping a refresh procedure returns, restricted to the three keys the code reads.
  \<open>None\<close> is an absent key; \<open>res_refresh_token = Some None\<close> is a key bound to None.
  The refresh procedure is a function of the refresh token it is called with.
\<close>

record refresh_result =
  res_access_token :: "string option"
  res_refresh_token :: "string option option"
  res_expires_at :: "expiry_value option"

datatype refresh_reply =
    Raises string
  | Returns refresh_result

record jwt_auth =
  jwt_token :: string
  jwt_refresh_token :: "string option"
  jwt_expires_at :: "datetime option"
  jwt_refresh_function :: "(string option \<Rightarrow> refresh_reply) option"

record oauth2_auth =
  oa_access_token :: string
  oa_refresh_token :: "string option"
  oa_token_type :: string
  oa_expires_at :: "datetime option"
  oa_refresh_function :: "(string option \<Rightarrow> refresh_reply) option"

datatype authenticator =
    APIKeyAuth string string
  | JWTAuth jwt_auth
  | OAuth2Auth oauth2_auth
  | NoAuth

definition JWTAuth_is_expired :: "int \<Rightarrow> jwt_auth \<Rightarrow> bool" where
  "JWTAuth_is_expired now a =
     (case jwt_expires_at a of
        None \<Rightarrow> False
      | Some e \<Rightarrow>
          (let buffer_time = float_add (timestamp (Aware now)) 60
           in timestamp e \<le> buffer_time))"

definition OAuth2Auth_is_expired :: "int \<Rightarrow> oauth2_auth \<Rightarrow> bool" where
  "OAuth2Auth_is_expired now a =
     (case oa_expires_at a of
        None \<Rightarrow> False
      | Some e \<Rightarrow>
          (let buffer_time = float_add (timestamp (Aware now)) 60
           in timestamp e \<le> buffer_time))"

fun is_expired :: "int \<Rightarrow> authenticator \<Rightarrow> bool" where
  "is_expired now (APIKeyAuth k h) = False"
| "is_expired now (JWTAuth a) = JWTAuth_is_expired now a"
| "is_expired now (OAuth2Auth a) = OAuth2Auth_is_expired now a"
| "is_expired now NoAuth = False"

fun get_auth_headers :: "authenticator \<Rightarrow> (string \<times> string) list" where
  "get_auth_headers (APIKeyAuth k h) = [(h, k)]"
| "get_auth_headers (JWTAuth a) = [(''Authorization'', ''Bearer '' @ jwt_token a)]"
| "get_auth_headers (OAuth2Auth a) =
     [(''Authorization'', oa_token_type a @ '' '' @ oa_access_token a)]"
| "get_auth_headers NoAuth = []"

text \<open>\<^verbatim>\<open>s.replace("Z", "+00:00")\<close>: every occurrence is replaced.\<close>

definition replace_Z :: "string \<Rightarrow> string" where
  "replace_Z s = concat (map (\<lambda>c. if c = CHR ''Z'' then ''+00:00'' else [c]) s)"

text \<open>
  The test \<^verbatim>\<open>not self.refresh_function or not self.refresh_token\<close> that opens
  \<^verbatim>\<open>refresh()\<close>, negated: an empty refresh token is falsy.
\<close>

definition JWTAuth_can_refresh :: "jwt_auth \<Rightarrow> bool" where
  "JWTAuth_can_refresh a =
     (case (jwt_refresh_function a, jwt_refresh_token a) of
        (Some f, Some rt) \<Rightarrow> rt \<noteq> []
      | _ \<Rightarrow> False)"

text \<open>
  \<^verbatim>\<open>await self.refresh_function(self.refresh_token)\<close>: the reply of the refresh procedure
  to the refresh token held at the moment of the call.
\<close>

definition JWTAuth_call_refresh_function :: "jwt_auth \<Rightarrow> refresh_reply" where
  "JWTAuth_call_refresh_function a =
     (case jwt_refresh_function a of
        Some f \<Rightarrow> f (jwt_refresh_token a)
      | None \<Rightarrow> Raises ([CHR 0x27] @ ''NoneType'' @ [CHR 0x27] @ '' object is not callable''))"

text \<open>
  The rest of the \<^verbatim>\<open>try\<close> block, once the refresh procedure has replied. \<open>fromiso\<close>
  stands for \<^verbatim>\<open>datetime.fromisoformat\<close> (\<open>Inl\<close> is the text of its ValueError). The
  assignments happen in source order, so a failure while reading \<^verbatim>\<open>expires_at\<close> leaves
  the new tokens in place.
\<close>

definition JWTAuth_store_result ::
  "(string \<Rightarrow> string + datetime) \<Rightarrow> refresh_reply \<Rightarrow> jwt_auth \<Rightarrow> (py_exc + unit) \<times> jwt_auth" where
  "JWTAuth_store_result fromiso reply a =
     (case reply of
        Raises e \<Rightarrow> (Inl (AuthenticationError (''Failed to refresh token: '' @ e)), a)
      | Returns r \<Rightarrow>
          (case res_access_token r of
             None \<Rightarrow>
               (Inl (AuthenticationError
                  (''Failed to refresh token: '' @ [CHR 0x27] @ ''access_token'' @ [CHR 0x27])), a)
           | Some tok \<Rightarrow>
               (let a1 = a\<lparr>jwt_token := tok\<rparr>;
                    a2 = a1\<lparr>jwt_refresh_token :=
                           (case res_refresh_token r of
                              None \<Rightarrow> jwt_refresh_token a1
                            | Some v \<Rightarrow> v)\<rparr>
                in case res_expires_at r of
                     None \<Rightarrow> (Inr (), a2)
                   | Some (ExpiresStr s) \<Rightarrow>
                       (case fromiso (replace_Z s) of
                          Inl e \<Rightarrow>
                            (Inl (AuthenticationError (''Failed to refresh token: '' @ e)), a2)
                        | Inr d \<Rightarrow> (Inr (), a2\<lparr>jwt_expires_at := Some d\<rparr>))
                   | Some (ExpiresNative d) \<Rightarrow> (Inr (), a2\<lparr>jwt_expires_at := d\<rparr>))))"

text \<open>\<^verbatim>\<open>JWTAuth.refresh\<close> run from entry to exit with the lock free on entry.\<close>

definition JWTAuth_refresh ::
  "(string \<Rightarrow> string + datetime) \<Rightarrow> int \<Rightarrow> jwt_auth \<Rightarrow> (py_exc + unit) \<times> jwt_auth" where
  "JWTAuth_refresh fromiso now a =
     (if \<not> JWTAuth_can_refresh a then
        (Inl (AuthenticationError ''No refresh function or refresh token available''), a)
      else if \<not> JWTAuth_is_expired now a then (Inr (), a)
      else JWTAuth_store_result fromiso (JWTAuth_call_refresh_function a) a)"

definition OAuth2Auth_can_refresh :: "oauth2_auth \<Rightarrow> bool" where
  "OAuth2Auth_can_refresh a =
     (case (oa_refresh_function a, oa_refresh_token a) of
        (Some f, Some rt) \<Rightarrow> rt \<noteq> []
      | _ \<Rightarrow> False)"

definition OAuth2Auth_call_refresh_function :: "oauth2_auth \<Rightarrow> refresh_reply" where
  "OAuth2Auth_call_refresh_function a =
     (case oa_refresh_function a of
        Some f \<Rightarrow> f (oa_refresh_token a)
      | None \<Rightarrow> Raises ([CHR 0x27] @ ''NoneType'' @ [CHR 0x27] @ '' object is not callable''))"

definition OAuth2Auth_store_result ::
  "(string \<Rightarrow> string + datetime) \<Rightarrow> refresh_reply \<Rightarrow> oauth2_auth \<Rightarrow> (py_exc + unit) \<times> oauth2_auth" where
  "OAuth2Auth_store_result fromiso reply a =
     (case reply of
        Raises e \<Rightarrow> (Inl (AuthenticationError (''Failed to refresh token: '' @ e)), a)
      | Returns r \<Rightarrow>
          (case res_access_token r of
             None \<Rightarrow>
               (Inl (AuthenticationError
                  (''Failed to refresh token: '' @ [CHR 0x27] @ ''access_token'' @ [CHR 0x27])), a)
           | Some tok \<Rightarrow>
               (let a1 = a\<lparr>oa_access_token := tok\<rparr>;
                    a2 = a1\<lparr>oa_refresh_token :=
                           (case res_refresh_token r of
                              None \<Rightarrow> oa_refresh_token a1
                            | Some v \<Rightarrow> v)\<rparr>
                in case res_expires_at r of
                     None \<Rightarrow> (Inr (), a2)
                   | Some (ExpiresStr s) \<Rightarrow>
                       (case fromiso (replace_Z s) of
                          Inl e \<Rightarrow>
                            (Inl (AuthenticationError (''Failed to refresh token: '' @ e)), a2)
                        | Inr d \<Rightarrow> (Inr (), a2\<lparr>oa_expires_at := Some d\<rparr>))
                   | Some (ExpiresNative d) \<Rightarrow> (Inr (), a2\<lparr>oa_expires_at := d\<rparr>))))"

definition OAuth2Auth_refresh ::
  "(string \<Rightarrow> string + datetime) \<Rightarrow> int \<Rightarrow> oauth2_auth \<Rightarrow> (py_exc + unit) \<times> oauth2_auth" where
  "OAuth2Auth_refresh fromiso now a =
     (if \<not> OAuth2Auth_can_refresh a then
        (Inl (AuthenticationError ''No refresh function or refresh token available''), a)
      else if \<not> OAuth2Auth_is_expired now a then (Inr (), a)
      else OAuth2Auth_store_result fromiso (OAuth2Auth_call_refresh_function a) a)"

fun refresh ::
  "(string \<Rightarrow> string + datetime) \<Rightarrow> int \<Rightarrow> authenticator \<Rightarrow> (py_exc + unit) \<times> authenticator" where
  "refresh fromiso now (APIKeyAuth k h) = (Inr (), APIKeyAuth k h)"
| "refresh fromiso now (JWTAuth a) = (case JWTAuth_refresh fromiso now a of (r, a') \<Rightarrow> (r, JWTAuth a'))"
| "refresh fromiso now (OAuth2Auth a) =
     (case OAuth2Auth_refresh fromiso now a of (r, a') \<Rightarrow> (r, OAuth2Auth a'))"
| "refresh fromiso now NoAuth = (Inr (), NoAuth)"

section \<open>Expiry\<close>

lemma is_expired_whole_seconds:
  assumes "\<bar>e\<bar> < 2 ^ 52" and "\<bar>t\<bar> < 2 ^ 52"
  shows "is_expired (t * 1000000) (JWTAuth (a\<lparr>jwt_expires_at := Some (Aware (e * 1000000))\<rparr>))
           = (t \<ge> e - 60)"
    and "is_expired (t * 1000000) (OAuth2Auth (b\<lparr>oa_expires_at := Some (Aware (e * 1000000))\<rparr>))
           = (t \<ge> e - 60)"
proof -
  from assms(1) have e: "\<bar>e\<bar> < 2 ^ 53" by simp
  have "(real_of_int e \<le> real_of_int (t + 60)) = (e - 60 \<le> t)"
    by (simp only: of_int_le_iff) linarith
  then show
    "is_expired (t * 1000000) (JWTAuth (a\<lparr>jwt_expires_at := Some (Aware (e * 1000000))\<rparr>))
       = (t \<ge> e - 60)"
    "is_expired (t * 1000000) (OAuth2Auth (b\<lparr>oa_expires_at := Some (Aware (e * 1000000))\<rparr>))
       = (t \<ge> e - 60)"
    using timestamp_whole_seconds [OF e] buffer_time_whole_seconds [OF assms(2)]
    by (simp_all add: JWTAuth_is_expired_def OAuth2Auth_is_expired_def Let_def)
qed

lemma timestamp_2038_expiry:
  "timestamp (Aware 2147483696066172) = 4503599728172565 / 2097152"
proof -
  have "round_double (2147483696066172 / 1000000)
        = pow2 (31 - 52) * of_int (round_half_even (2147483696066172 / 1000000 / pow2 (31 - 52)))"
    by (rule round_double_eq) (simp_all add: pow2_def)
  also have "\<dots> = 4503599728172565 / 2097152"
    by (simp add: pow2_def round_half_even_def Let_def)
  finally show ?thesis by (simp add: timestamp_def)
qed

lemma timestamp_2038_now:
  "timestamp (Aware 2147483636066172) = 9007199204686889 / 4194304"
proof -
  have "round_double (2147483636066172 / 1000000)
        = pow2 (30 - 52) * of_int (round_half_even (2147483636066172 / 1000000 / pow2 (30 - 52)))"
    by (rule round_double_eq) (simp_all add: pow2_def)
  also have "\<dots> = 9007199204686889 / 4194304"
    by (simp add: pow2_def round_half_even_def Let_def)
  finally show ?thesis by (simp add: timestamp_def)
qed

lemma buffer_time_2038_now:
  "float_add (timestamp (Aware 2147483636066172)) 60 = 4503599728172564 / 2097152"
proof -
  have "round_double (9007199204686889 / 4194304 + 60)
        = pow2 (31 - 52)
          * of_int (round_half_even ((9007199204686889 / 4194304 + 60) / pow2 (31 - 52)))"
    by (rule round_double_eq) (simp_all add: pow2_def)
  also have "\<dots> = 4503599728172564 / 2097152"
    by (simp add: pow2_def round_half_even_def Let_def)
  finally show ?thesis by (simp add: float_add_def timestamp_2038_now)
qed

text \<open>
  C4. Failing input: the expiry is 2038-01-19T03:14:56.066172Z and the clock reads
  2038-01-19T03:13:56.066172Z, exactly 60 seconds earlier. The clock's timestamp lies just
  below \<open>2^31\<close> seconds, and adding 60 to it rounds to the float below the expiry's
  timestamp, so \<^verbatim>\<open>is_expired()\<close> is false for the JWT and for the OAuth2 authenticator,
  at the boundary that counts as expired.
\<close>

theorem is_expired_false_at_boundary:
  "2147483636066172 = 2147483696066172 - 60 * (1000000 :: int)
   \<and> \<not> is_expired 2147483636066172
         (JWTAuth (a\<lparr>jwt_expires_at := Some (Aware 2147483696066172)\<rparr>))
   \<and> \<not> is_expired 2147483636066172
         (OAuth2Auth (b\<lparr>oa_expires_at := Some (Aware 2147483696066172)\<rparr>))"
  by (simp add: JWTAuth_is_expired_def OAuth2Auth_is_expired_def Let_def
      timestamp_2038_expiry buffer_time_2038_now)

text \<open>
  C8. An authenticator whose state holds no expiry timestamp (NoAuth, APIKeyAuth, and JWT or
  OAuth2 with \<^verbatim>\<open>expires_at\<close> None) reports \<^verbatim>\<open>is_expired()\<close> false at every clock value.
\<close>

theorem is_expired_false_without_expiry:
  "is_expired t NoAuth = False
   \<and> is_expired t (APIKeyAuth k h) = False
   \<and> is_expired t (JWTAuth (a\<lparr>jwt_expires_at := None\<rparr>)) = False
   \<and> is_expired t (OAuth2Auth (b\<lparr>oa_expires_at := None\<rparr>)) = False"
  by (simp add: JWTAuth_is_expired_def OAuth2Auth_is_expired_def)

section \<open>Refresh\<close>

lemma JWTAuth_is_expired_mono:
  "JWTAuth_is_expired now a \<Longrightarrow> now \<le> now' \<Longrightarrow> JWTAuth_is_expired now' a"
  using buffer_time_mono [of now now']
  by (auto simp: JWTAuth_is_expired_def Let_def split: option.splits)

lemma OAuth2Auth_is_expired_mono:
  "OAuth2Auth_is_expired now a \<Longrightarrow> now \<le> now' \<Longrightarrow> OAuth2Auth_is_expired now' a"
  using buffer_time_mono [of now now']
  by (auto simp: OAuth2Auth_is_expired_def Let_def split: option.splits)

text \<open>
  C10. When \<^verbatim>\<open>refresh()\<close> of a JWT or OAuth2 authenticator calls the refresh procedure
  and the returned mapping has an access token and no \<^verbatim>\<open>expires_at\<close> key, the call
  succeeds, the access token is replaced, the refresh token is replaced only when the
  mapping supplies one, and the stored expiry is unchanged; the authenticator, expired
  before, is still expired at every later clock value.
\<close>

theorem refresh_without_expires_at_keeps_expiry:
  "(jwt_refresh_function a = Some f \<and> jwt_refresh_token a = Some rt \<and> rt \<noteq> []
      \<and> JWTAuth_is_expired now a \<and> f (Some rt) = Returns r
      \<and> res_access_token r = Some tok \<and> res_expires_at r = None
    \<longrightarrow> (\<exists>a'. JWTAuth_refresh fromiso now a = (Inr (), a')
          \<and> a' = a\<lparr>jwt_token := tok,
                    jwt_refresh_token :=
                      (case res_refresh_token r of None \<Rightarrow> Some rt | Some v \<Rightarrow> v)\<rparr>
          \<and> jwt_expires_at a' = jwt_expires_at a
          \<and> (\<forall>now'. now \<le> now' \<longrightarrow> JWTAuth_is_expired now' a')))
   \<and> (oa_refresh_function b = Some g \<and> oa_refresh_token b = Some rt2 \<and> rt2 \<noteq> []
      \<and> OAuth2Auth_is_expired now b \<and> g (Some rt2) = Returns r2
      \<and> res_access_token r2 = Some tok2 \<and> res_expires_at r2 = None
    \<longrightarrow> (\<exists>b'. OAuth2Auth_refresh fromiso now b = (Inr (), b')
          \<and> b' = b\<lparr>oa_access_token := tok2,
                    oa_refresh_token :=
                      (case res_refresh_token r2 of None \<Rightarrow> Some rt2 | Some v \<Rightarrow> v)\<rparr>
          \<and> oa_expires_at b' = oa_expires_at b
          \<and> (\<forall>now'. now \<le> now' \<longrightarrow> OAuth2Auth_is_expired now' b')))"
proof (intro conjI impI)
  assume h: "jwt_refresh_function a = Some f \<and> jwt_refresh_token a = Some rt \<and> rt \<noteq> []
      \<and> JWTAuth_is_expired now a \<and> f (Some rt) = Returns r
      \<and> res_access_token r = Some tok \<and> res_expires_at r = None"
  let ?a' = "a\<lparr>jwt_token := tok,
                 jwt_refresh_token :=
                   (case res_refresh_token r of None \<Rightarrow> Some rt | Some v \<Rightarrow> v)\<rparr>"
  from h have run: "JWTAuth_refresh fromiso now a = (Inr (), ?a')"
    by (simp add: JWTAuth_refresh_def JWTAuth_can_refresh_def JWTAuth_call_refresh_function_def
        JWTAuth_store_result_def Let_def split: option.splits)
  have same: "jwt_expires_at ?a' = jwt_expires_at a" by simp
  from h have "JWTAuth_is_expired now ?a'"
    by (simp add: JWTAuth_is_expired_def)
  then have later: "\<forall>now'. now \<le> now' \<longrightarrow> JWTAuth_is_expired now' ?a'"
    using JWTAuth_is_expired_mono by blast
  from run same later
  show "\<exists>a'. JWTAuth_refresh fromiso now a = (Inr (), a')
          \<and> a' = ?a'
          \<and> jwt_expires_at a' = jwt_expires_at a
          \<and> (\<forall>now'. now \<le> now' \<longrightarrow> JWTAuth_is_expired now' a')"
    by blast
next
  assume h: "oa_refresh_function b = Some g \<and> oa_refresh_token b = Some rt2 \<and> rt2 \<noteq> []
      \<and> OAuth2Auth_is_expired now b \<and> g (Some rt2) = Returns r2
      \<and> res_access_token r2 = Some tok2 \<and> res_expires_at r2 = None"
  let ?b' = "b\<lparr>oa_access_token := tok2,
                 oa_refresh_token :=
                   (case res_refresh_token r2 of None \<Rightarrow> Some rt2 | Some v \<Rightarrow> v)\<rparr>"
  from h have run: "OAuth2Auth_refresh fromiso now b = (Inr (), ?b')"
    by (simp add: OAuth2Auth_refresh_def OAuth2Auth_can_refresh_def
        OAuth2Auth_call_refresh_function_def OAuth2Auth_store_result_def Let_def split: option.splits)
  have same: "oa_expires_at ?b' = oa_expires_at b" by simp
  from h have "OAuth2Auth_is_expired now ?b'"
    by (simp add: OAuth2Auth_is_expired_def)
  then have later: "\<forall>now'. now \<le> now' \<longrightarrow> OAuth2Auth_is_expired now' ?b'"
    using OAuth2Auth_is_expired_mono by blast
  from run same later
  show "\<exists>b'. OAuth2Auth_refresh fromiso now b = (Inr (), b')
          \<and> b' = ?b'
          \<and> oa_expires_at b' = oa_expires_at b
          \<and> (\<forall>now'. now \<le> now' \<longrightarrow> OAuth2Auth_is_expired now' b')"
    by blast
qed

definition only_token :: refresh_result where
  "only_token = \<lparr>res_access_token = Some ''t2'', res_refresh_token = None, res_expires_at = None\<rparr>"

text \<open>Authenticators whose expiry is 100 seconds after the epoch.\<close>

definition stale_jwt :: jwt_auth where
  "stale_jwt = \<lparr>jwt_token = ''t1'', jwt_refresh_token = Some ''r1'',
                jwt_expires_at = Some (Aware 100000000),
                jwt_refresh_function = Some (\<lambda>rt. Returns only_token)\<rparr>"

definition stale_oauth2 :: oauth2_auth where
  "stale_oauth2 = \<lparr>oa_access_token = ''t1'', oa_refresh_token = Some ''r1'',
                   oa_token_type = ''Bearer'', oa_expires_at = Some (Aware 100000000),
                   oa_refresh_function = Some (\<lambda>rt. Returns only_token)\<rparr>"

lemma timestamp_100: "timestamp (Aware 100000000) = 100"
  using timestamp_whole_seconds [of 100] by simp

lemma buffer_time_50: "float_add (timestamp (Aware 50000000)) 60 = 110"
  using buffer_time_whole_seconds [of 50] by simp

lemma buffer_time_51: "float_add (timestamp (Aware 51000000)) 60 = 111"
  using buffer_time_whole_seconds [of 51] by simp

theorem refresh_without_expires_at_keeps_expiry_witness:
  "JWTAuth_is_expired 50000000 stale_jwt
   \<and> JWTAuth_refresh (\<lambda>s. Inl s) 50000000 stale_jwt
       = (Inr (), stale_jwt\<lparr>jwt_token := ''t2''\<rparr>)
   \<and> JWTAuth_is_expired 51000000 (stale_jwt\<lparr>jwt_token := ''t2''\<rparr>)
   \<and> OAuth2Auth_is_expired 50000000 stale_oauth2
   \<and> OAuth2Auth_refresh (\<lambda>s. Inl s) 50000000 stale_oauth2
       = (Inr (), stale_oauth2\<lparr>oa_access_token := ''t2''\<rparr>)
   \<and> OAuth2Auth_is_expired 51000000 (stale_oauth2\<lparr>oa_access_token := ''t2''\<rparr>)"
  using refresh_without_expires_at_keeps_expiry
    [of stale_jwt "\<lambda>rt. Returns only_token" "''r1''" 50000000 only_token "''t2''" "\<lambda>s. Inl s"
        stale_oauth2 "\<lambda>rt. Returns only_token" "''r1''" only_token "''t2''"]
  by (simp add: stale_jwt_def stale_oauth2_def only_token_def
        JWTAuth_is_expired_def OAuth2Auth_is_expired_def Let_def
        timestamp_100 buffer_time_50 buffer_time_51)

section \<open>Concurrent refresh\<close>

text \<open>
  Callers of \<^verbatim>\<open>refresh()\<close> on one authenticator, interleaved at the points where a
  coroutine can be suspended: waiting for \<^verbatim>\<open>_refresh_lock\<close> and awaiting the refresh
  procedure. A caller is at the start of \<^verbatim>\<open>refresh()\<close>, waiting for the lock, holding the
  lock while the refresh procedure computes its reply, or done.
\<close>

datatype caller =
    Start
  | Waiting
  | Awaiting refresh_reply
  | Returned
  | Raised py_exc

text \<open>
  The shared state: the authenticator object, whether its lock is held, the callers, and
  the number of invocations of the refresh procedure so far.
\<close>

record refresh_system =
  shared_auth :: authenticator
  locked :: bool
  callers :: "caller list"
  invocations :: nat


text \<open>
  \<^verbatim>\<open>refresh()\<close> up to the lock: \<^verbatim>\<open>pass\<close> for NoAuth and APIKeyAuth, the test of the
  refresh function and refresh token for the other two.
\<close>

fun refresh_entry :: "authenticator \<Rightarrow> caller" where
  "refresh_entry (JWTAuth a) =
     (if JWTAuth_can_refresh a then Waiting
      else Raised (AuthenticationError ''No refresh function or refresh token available''))"
| "refresh_entry (OAuth2Auth a) =
     (if OAuth2Auth_can_refresh a then Waiting
      else Raised (AuthenticationError ''No refresh function or refresh token available''))"
| "refresh_entry (APIKeyAuth k h) = Returned"
| "refresh_entry NoAuth = Returned"

fun call_refresh_function :: "authenticator \<Rightarrow> refresh_reply option" where
  "call_refresh_function (JWTAuth a) = Some (JWTAuth_call_refresh_function a)"
| "call_refresh_function (OAuth2Auth a) = Some (OAuth2Auth_call_refresh_function a)"
| "call_refresh_function (APIKeyAuth k h) = None"
| "call_refresh_function NoAuth = None"

fun store_result ::
  "(string \<Rightarrow> string + datetime) \<Rightarrow> refresh_reply \<Rightarrow> authenticator
   \<Rightarrow> ((py_exc + unit) \<times> authenticator) option" where
  "store_result fromiso reply (JWTAuth a) =
     (case JWTAuth_store_result fromiso reply a of (r, a') \<Rightarrow> Some (r, JWTAuth a'))"
| "store_result fromiso reply (OAuth2Auth a) =
     (case OAuth2Auth_store_result fromiso reply a of (r, a') \<Rightarrow> Some (r, OAuth2Auth a'))"
| "store_result fromiso reply (APIKeyAuth k h) = None"
| "store_result fromiso reply NoAuth = None"

fun leave :: "py_exc + unit \<Rightarrow> caller" where
  "leave (Inl e) = Raised e"
| "leave (Inr u) = Returned"

text \<open>
  One scheduling step: caller \<open>i\<close> runs, at clock reading \<open>now\<close>, up to its next suspension
  point. A caller waiting for a held lock, a finished caller and a caller that does not
  exist do nothing. The lock is released on every way out of the \<^verbatim>\<open>async with\<close> block.
\<close>

definition step ::
  "(string \<Rightarrow> string + datetime) \<Rightarrow> nat \<Rightarrow> int \<Rightarrow> refresh_system \<Rightarrow> refresh_system" where
  "step fromiso i now s =
     (if length (callers s) \<le> i then s
      else
        (case callers s ! i of
           Start \<Rightarrow> s\<lparr>callers := (callers s)[i := refresh_entry (shared_auth s)]\<rparr>
         | Waiting \<Rightarrow>
             if locked s then s
             else if \<not> is_expired now (shared_auth s) then s\<lparr>callers := (callers s)[i := Returned]\<rparr>
             else
               (case call_refresh_function (shared_auth s) of
                  None \<Rightarrow> s
                | Some reply \<Rightarrow>
                    s\<lparr>locked := True, invocations := invocations s + 1,
                      callers := (callers s)[i := Awaiting reply]\<rparr>)
         | Awaiting reply \<Rightarrow>
             (case store_result fromiso reply (shared_auth s) of
                None \<Rightarrow> s
              | Some (r, a') \<Rightarrow>
                  s\<lparr>shared_auth := a', locked := False, callers := (callers s)[i := leave r]\<rparr>)
         | Returned \<Rightarrow> s
         | Raised e \<Rightarrow> s))"

text \<open>A schedule names, step by step, the caller that runs and the clock reading it sees.\<close>

fun run ::
  "(string \<Rightarrow> string + datetime) \<Rightarrow> (nat \<times> int) list \<Rightarrow> refresh_system \<Rightarrow> refresh_system" where
  "run fromiso [] s = s"
| "run fromiso ((i, now) # schedule) s = run fromiso schedule (step fromiso i now s)"







































section \<open>Transport engine (http_client.py)\<close>

record response =
  resp_status_code :: int
  resp_headers :: "(string \<times> string) list"
  resp_text :: string
  resp_json :: "json option"

definition is_success :: "response \<Rightarrow> bool" where
  "is_success r = (200 \<le> resp_status_code r \<and> resp_status_code r \<le> 299)"

definition ascii_lower :: "char \<Rightarrow> char" where
  "ascii_lower c =
     (case map_of (zip ''ABCDEFGHIJKLMNOPQRSTUVWXYZ'' ''abcdefghijklmnopqrstuvwxyz'') c of
        None \<Rightarrow> c
      | Some l \<Rightarrow> l)"

definition header_values :: "(string \<times> string) list \<Rightarrow> string \<Rightarrow> string list" where
  "header_values hs name =
     map snd (filter (\<lambda>(k, v). map ascii_lower k = map ascii_lower name) hs)"

fun join_with :: "string \<Rightarrow> string list \<Rightarrow> string" where
  "join_with sep [] = []"
| "join_with sep [x] = x"
| "join_with sep (x # y # ys) = x @ sep @ join_with sep (y # ys)"

definition header_contains :: "(string \<times> string) list \<Rightarrow> string \<Rightarrow> bool" where
  "header_contains hs name = (header_values hs name \<noteq> [])"

definition header_get :: "(string \<times> string) list \<Rightarrow> string \<Rightarrow> string" where
  "header_get hs name = join_with '', '' (header_values hs name)"

text \<open>
  \<^verbatim>\<open>int(s)\<close> for a string. A string is a list of characters with code points below 256.
  \<^verbatim>\<open>int\<close> skips, at both ends, the ASCII whitespace 0x09 to 0x0D and 0x20 and the
  non-ASCII spaces, here 0x85 and 0xA0 (the separators 0x1C to 0x1F are not skipped); the
  only decimal digits below 256 are \<open>0\<close> to \<open>9\<close>. More than \<^verbatim>\<open>sys.get_int_max_str_digits()\<close>
  digits, 4300 unless reconfigured, are refused with a ValueError as well.
\<close>

definition is_space :: "char \<Rightarrow> bool" where
  "is_space c = (c \<in> set [CHR 0x09, CHR 0x0A, CHR 0x0B, CHR 0x0C, CHR 0x0D, CHR 0x20,
                          CHR 0x85, CHR 0xA0])"

definition is_digit :: "char \<Rightarrow> bool" where
  "is_digit c = ((48::nat) \<le> of_char c \<and> of_char c \<le> (57::nat))"

definition digit_val :: "char \<Rightarrow> int" where
  "digit_val c = int (of_char c) - 48"

definition strip :: "string \<Rightarrow> string" where
  "strip s = rev (dropWhile is_space (rev (dropWhile is_space s)))"

fun digits_value :: "int \<Rightarrow> bool \<Rightarrow> string \<Rightarrow> int option" where
  "digits_value acc after_digit [] = (if after_digit then Some acc else None)"
| "digits_value acc after_digit (c # cs) =
     (if is_digit c then digits_value (10 * acc + digit_val c) True cs
      else if c = CHR ''_'' \<and> after_digit then digits_value acc False cs
      else None)"

definition int_max_str_digits :: nat where
  "int_max_str_digits = 4300"

definition py_int :: "string \<Rightarrow> int option" where
  "py_int s =
     (if int_max_str_digits < length (filter is_digit s) then None
      else
        (case strip s of
           [] \<Rightarrow> None
         | c # cs \<Rightarrow>
             if c = CHR ''-'' then map_option uminus (digits_value 0 False cs)
             else if c = CHR ''+'' then digits_value 0 False cs
             else digits_value 0 False (c # cs)))"

text \<open>Python's truth value of a parsed JSON value.\<close>

fun truthy :: "json \<Rightarrow> bool" where
  "truthy JNull = False"
| "truthy (JBool b) = b"
| "truthy (JInt i) = (i \<noteq> 0)"
| "truthy (JFloat x) = (x \<noteq> 0)"
| "truthy (JStr s) = (s \<noteq> [])"
| "truthy (JArr xs) = (xs \<noteq> [])"
| "truthy (JObj kvs) = (kvs \<noteq> [])"

fun type_name :: "json \<Rightarrow> string" where
  "type_name JNull = ''NoneType''"
| "type_name (JBool b) = ''bool''"
| "type_name (JInt i) = ''int''"
| "type_name (JFloat x) = ''float''"
| "type_name (JStr s) = ''str''"
| "type_name (JArr xs) = ''list''"
| "type_name (JObj kvs) = ''dict''"

text \<open>\<^verbatim>\<open>d.get(k, default)\<close> on a dict.\<close>

definition dict_get :: "(string \<times> json) list \<Rightarrow> string \<Rightarrow> json \<Rightarrow> json" where
  "dict_get kvs k d = (case map_of kvs k of None \<Rightarrow> d | Some v \<Rightarrow> v)"

definition no_get_attribute :: "json \<Rightarrow> py_exc" where
  "no_get_attribute j =
     AttributeError ([CHR 0x27] @ type_name j @ [CHR 0x27] @ '' object has no attribute ''
                     @ [CHR 0x27] @ ''get'' @ [CHR 0x27])"

definition NotFoundError :: "json \<Rightarrow> json \<Rightarrow> json \<Rightarrow> gotrs_error" where
  "NotFoundError m details response_data =
     (GotrsError NotFoundErrorK m)
       \<lparr>err_status_code := Some 404, err_code := Some (JStr ''NOT_FOUND''),
        err_details := Some details, err_response_data := Some response_data\<rparr>"

definition UnauthorizedError :: "json \<Rightarrow> json \<Rightarrow> json \<Rightarrow> gotrs_error" where
  "UnauthorizedError m details response_data =
     (GotrsError UnauthorizedErrorK m)
       \<lparr>err_status_code := Some 401, err_code := Some (JStr ''UNAUTHORIZED''),
        err_details := Some details, err_response_data := Some response_data\<rparr>"

definition ForbiddenError :: "json \<Rightarrow> json \<Rightarrow> json \<Rightarrow> gotrs_error" where
  "ForbiddenError m details response_data =
     (GotrsError ForbiddenErrorK m)
       \<lparr>err_status_code := Some 403, err_code := Some (JStr ''FORBIDDEN''),
        err_details := Some details, err_response_data := Some response_data\<rparr>"

definition RateLimitError :: "json \<Rightarrow> int option \<Rightarrow> json \<Rightarrow> json \<Rightarrow> gotrs_error" where
  "RateLimitError m retry_after details response_data =
     (GotrsError RateLimitErrorK m)
       \<lparr>err_status_code := Some 429, err_code := Some (JStr ''RATE_LIMITED''),
        err_details := Some details, err_response_data := Some response_data,
        err_retry_after := retry_after\<rparr>"

text \<open>
  \<^verbatim>\<open>ServerError.__init__\<close>: \<^verbatim>\<open>setdefault\<close> fills \<^verbatim>\<open>status_code\<close> and \<^verbatim>\<open>code\<close>
  only when the keyword is absent (\<open>None\<close> here); a keyword that is passed, whatever its
  value, is kept.
\<close>

definition ServerError ::
  "json \<Rightarrow> int option option \<Rightarrow> json option option \<Rightarrow> json \<Rightarrow> json \<Rightarrow> gotrs_error" where
  "ServerError m status_code_kw code_kw details response_data =
     (GotrsError ServerErrorK m)
       \<lparr>err_status_code := (case status_code_kw of None \<Rightarrow> Some 500 | Some v \<Rightarrow> v),
        err_code := (case code_kw of None \<Rightarrow> Some (JStr ''SERVER_ERROR'') | Some v \<Rightarrow> v),
        err_details := Some details, err_response_data := Some response_data\<rparr>"

text \<open>
  \<^verbatim>\<open>HTTPClient._handle_error\<close>. It never returns: the value is the exception raised.
  A body that parses to something other than a dict has no \<^verbatim>\<open>get\<close>.
\<close>

definition handle_error :: "response \<Rightarrow> py_exc" where
  "handle_error response =
     (let status_code = resp_status_code response;
          error_data =
            (case resp_json response of
               None \<Rightarrow>
                 JObj [(''error'',
                        JStr (if resp_text response \<noteq> [] then resp_text response
                              else ''Unknown error''))]
             | Some j \<Rightarrow> j)
      in case error_data of
           JObj kvs \<Rightarrow>
             (let message = dict_get kvs ''message'' (dict_get kvs ''error'' (JStr ''Unknown error''));
                  code = dict_get kvs ''code'' (JStr []);
                  details = dict_get kvs ''details'' (JStr [])
              in if status_code = 404 then Gotrs (NotFoundError message details error_data)
                 else if status_code = 401 then Gotrs (UnauthorizedError message details error_data)
                 else if status_code = 403 then Gotrs (ForbiddenError message details error_data)
                 else if status_code = 429 then
                   (let retry_after =
                          (if header_contains (resp_headers response) ''Retry-After''
                           then py_int (header_get (resp_headers response) ''Retry-After'')
                           else None)
                    in Gotrs (RateLimitError message retry_after details error_data))
                 else if 500 \<le> status_code \<and> status_code < 600 then
                   Gotrs (ServerError message (Some (Some status_code)) (Some (Some code))
                            details error_data)
                 else
                   Gotrs ((GotrsError GotrsErrorK message)
                            \<lparr>err_status_code := Some status_code, err_code := Some code,
                             err_details := Some details,
                             err_response_data := Some error_data\<rparr>))
         | _ \<Rightarrow> no_get_attribute error_data)"

subsection \<open>The retry loop\<close>

record config =
  base_url :: string
  timeout_repr :: string
  retries :: int
  user_agent :: string
  debug :: bool

text \<open>
  One call of the underlying transport: a response, one of the two exception families
  the loop catches (with the exception's text), or any other exception.
\<close>

datatype outcome =
    Response response
  | TimeoutException string
  | NetworkErrorException string
  | RaisesOther string

text \<open>What the loop does to the world: transport calls, sleeps and debug output, in order.\<close>

record io =
  calls :: nat
  sleeps :: "nat list"
  printed :: "string list"

fun show_nat :: "nat \<Rightarrow> string" where
  "show_nat n =
     (if n < 10 then [''0123456789'' ! n]
      else show_nat (n div 10) @ [''0123456789'' ! (n mod 10)])"

text \<open>The retry branch shared by the three retryable outcomes: print when debugging, sleep.\<close>

definition backoff :: "config \<Rightarrow> string \<Rightarrow> nat \<Rightarrow> io \<Rightarrow> io" where
  "backoff c what attempt w =
     (let delay = 2 ^ attempt;
          w1 = (if debug c
                then w\<lparr>printed := printed w @
                        [what @ '' (attempt '' @ show_nat (attempt + 1) @ ''), retrying in ''
                         @ show_nat delay @ ''s...'']\<rparr>
                else w)
      in w1\<lparr>sleeps := sleeps w1 @ [delay]\<rparr>)"

definition TimeoutError :: "string \<Rightarrow> py_exc" where
  "TimeoutError m = Gotrs (GotrsError TimeoutErrorK (JStr m))"

definition NetworkError :: "string \<Rightarrow> py_exc" where
  "NetworkError m = Gotrs (GotrsError NetworkErrorK (JStr m))"

text \<open>
  The body of \<^verbatim>\<open>for attempt in range(self.retries + 1)\<close>: \<open>n\<close> iterations are left,
  \<open>attempt\<close> is the loop variable, \<open>last_exception\<close> the local of that name. The
  transport is given the attempt index.
\<close>

fun attempt_loop ::
  "config \<Rightarrow> (nat \<Rightarrow> outcome) \<Rightarrow> nat \<Rightarrow> nat \<Rightarrow> py_exc option \<Rightarrow> io
   \<Rightarrow> (py_exc + response) \<times> io" where
  "attempt_loop c transport 0 attempt last_exception w =
     (case last_exception of
        Some e \<Rightarrow> (Inl e, w)
      | None \<Rightarrow>
          (Inl (Gotrs (GotrsError GotrsErrorK (JStr ''Request failed after all retry attempts''))), w))"
| "attempt_loop c transport (Suc n) attempt last_exception w =
     (let w1 = w\<lparr>calls := calls w + 1\<rparr>
      in case transport attempt of
           Response response \<Rightarrow>
             if is_success response then (Inr response, w1)
             else if 400 \<le> resp_status_code response \<and> resp_status_code response < 500
                     \<and> resp_status_code response \<noteq> 429
             then (Inl (handle_error response), w1)
             else if int attempt < retries c
             then attempt_loop c transport n (attempt + 1) last_exception
                    (backoff c ''Request failed'' attempt w1)
             else (Inl (handle_error response), w1)
         | TimeoutException e \<Rightarrow>
             (let last_new = Some (TimeoutError (''Request timed out after '' @ timeout_repr c @ ''s''))
              in if int attempt < retries c
                 then attempt_loop c transport n (attempt + 1) last_new
                        (backoff c ''Request timed out'' attempt w1)
                 else attempt_loop c transport n (attempt + 1) last_new w1)
         | NetworkErrorException e \<Rightarrow>
             (let last_new = Some (NetworkError (''Network error: '' @ e))
              in if int attempt < retries c
                 then attempt_loop c transport n (attempt + 1) last_new
                        (backoff c ''Network error'' attempt w1)
                 else attempt_loop c transport n (attempt + 1) last_new w1)
         | RaisesOther e \<Rightarrow> (Inl (OtherException e), w1))"

definition make_request_with_retries ::
  "config \<Rightarrow> (nat \<Rightarrow> outcome) \<Rightarrow> io \<Rightarrow> (py_exc + response) \<times> io" where
  "make_request_with_retries c transport w =
     attempt_loop c transport (nat (retries c + 1)) 0 None w"

subsection \<open>URL building\<close>

text \<open>
  \<^verbatim>\<open>urllib.parse.urljoin\<close> of the Python standard library, written after CPython's
  implementation: \<^verbatim>\<open>urlsplit\<close>/\<^verbatim>\<open>urlparse\<close> cut a URL into scheme, netloc, path,
  params, query and fragment, the relative path is resolved against the base path, and
  \<^verbatim>\<open>urlunparse\<close> glues the parts. Strings are byte strings; the ValueError of a
  malformed bracketed host is not part of the model.
\<close>

fun find_index_of :: "char \<Rightarrow> string \<Rightarrow> nat option" where
  "find_index_of c [] = None"
| "find_index_of c (x # xs) =
     (if x = c then Some 0 else map_option Suc (find_index_of c xs))"

text \<open>\<^verbatim>\<open>s.split(c)\<close>: always at least one piece.\<close>

fun split_on :: "char \<Rightarrow> string \<Rightarrow> string list" where
  "split_on c [] = [[]]"
| "split_on c (x # xs) =
     (case split_on c xs of
        [] \<Rightarrow> [[]]
      | p # ps \<Rightarrow> if x = c then [] # p # ps else (x # p) # ps)"

text \<open>\<^verbatim>\<open>s.split(c, 1)\<close> when \<open>c\<close> occurs: the text before and after the first \<open>c\<close>.\<close>

definition partition_first :: "char \<Rightarrow> string \<Rightarrow> (string \<times> string) option" where
  "partition_first c s =
     (case find_index_of c s of None \<Rightarrow> None | Some i \<Rightarrow> Some (take i s, drop (Suc i) s))"

definition ascii_letters :: string where
  "ascii_letters = ''abcdefghijklmnopqrstuvwxyzABCDEFGHIJKLMNOPQRSTUVWXYZ''"

definition ascii_digits :: string where
  "ascii_digits = ''0123456789''"

definition scheme_chars :: string where
  "scheme_chars = ascii_letters @ ascii_digits @ ''+-.''"

definition uses_relative :: "string list" where
  "uses_relative =
     ['''', ''ftp'', ''http'', ''gopher'', ''nntp'', ''imap'', ''wais'', ''file'', ''https'',
      ''shttp'', ''mms'', ''prospero'', ''rtsp'', ''rtsps'', ''rtspu'', ''sftp'', ''svn'',
      ''svn+ssh'', ''ws'', ''wss'']"

definition uses_netloc :: "string list" where
  "uses_netloc =
     ['''', ''ftp'', ''http'', ''gopher'', ''nntp'', ''telnet'', ''imap'', ''wais'', ''file'',
      ''mms'', ''https'', ''shttp'', ''snews'', ''prospero'', ''rtsp'', ''rtsps'', ''rtspu'',
      ''rsync'', ''svn'', ''svn+ssh'', ''sftp'', ''nfs'', ''git'', ''git+ssh'', ''ws'', ''wss'',
      ''itms-services'']"

definition uses_params :: "string list" where
  "uses_params =
     ['''', ''ftp'', ''hdl'', ''prospero'', ''http'', ''imap'', ''https'', ''shttp'', ''rtsp'',
      ''rtsps'', ''rtspu'', ''sip'', ''sips'', ''mms'', ''sftp'', ''tel'']"

record url_parts =
  u_scheme :: string
  u_netloc :: string
  u_path :: string
  u_params :: string
  u_query :: string
  u_fragment :: string

text \<open>The scheme of \<open>url\<close> and the rest, or the default scheme and the whole text.\<close>

definition split_scheme :: "string \<Rightarrow> string \<Rightarrow> string \<times> string" where
  "split_scheme dflt url =
     (case find_index_of (CHR '':'') url of
        None \<Rightarrow> (dflt, url)
      | Some i \<Rightarrow>
          if i > 0 \<and> hd url \<in> set ascii_letters \<and> list_all (\<lambda>c. c \<in> set scheme_chars) (take i url)
          then (map ascii_lower (take i url), drop (Suc i) url)
          else (dflt, url))"

text \<open>\<^verbatim>\<open>_splitnetloc(url, 2)\<close>: the netloc ends at the first of \<open>/\<close>, \<open>?\<close>, \<open>#\<close>.\<close>

definition split_netloc :: "string \<Rightarrow> string \<times> string" where
  "split_netloc url =
     (if take 2 url = ''//''
      then (let rest = drop 2 url;
                n = length (takeWhile (\<lambda>c. c \<notin> set ''/?#'') rest)
            in (take n rest, drop n rest))
      else ([], url))"

text \<open>\<^verbatim>\<open>_splitparams\<close>: the parameters of the last path segment.\<close>

definition split_params :: "string \<Rightarrow> string \<times> string" where
  "split_params url =
     (let last_segment_start =
            (case find_index_of (CHR ''/'') (rev url) of
               None \<Rightarrow> 0
             | Some k \<Rightarrow> length url - Suc k)
      in case find_index_of (CHR '';'') (drop last_segment_start url) of
           None \<Rightarrow> (url, [])
         | Some j \<Rightarrow> (take (last_segment_start + j) url, drop (Suc (last_segment_start + j)) url))"

definition urlparse :: "string \<Rightarrow> string \<Rightarrow> url_parts" where
  "urlparse url0 default_scheme =
     (let url1 = filter (\<lambda>c. c \<notin> set [CHR 0x09, CHR 0x0A, CHR 0x0D])
                   (dropWhile (\<lambda>c. of_char c \<le> (32::nat)) url0);
          (scheme, url2) = split_scheme default_scheme url1;
          (netloc, url3) = split_netloc url2;
          (url4, fragment) = (case partition_first (CHR ''#'') url3 of
                                None \<Rightarrow> (url3, []) | Some p \<Rightarrow> p);
          (url5, query) = (case partition_first (CHR ''?'') url4 of
                             None \<Rightarrow> (url4, []) | Some p \<Rightarrow> p);
          (path, params) = (if scheme \<in> set uses_params \<and> CHR '';'' \<in> set url5
                            then split_params url5 else (url5, []))
      in \<lparr>u_scheme = scheme, u_netloc = netloc, u_path = path, u_params = params,
          u_query = query, u_fragment = fragment\<rparr>)"

definition urlunparse :: "url_parts \<Rightarrow> string" where
  "urlunparse p =
     (let url1 = (if u_params p \<noteq> [] then u_path p @ '';'' @ u_params p else u_path p);
          url2 = (if u_netloc p \<noteq> []
                     \<or> (u_scheme p \<noteq> [] \<and> u_scheme p \<in> set uses_netloc \<and> take 2 url1 \<noteq> ''//'')
                  then ''//'' @ u_netloc p
                       @ (if url1 \<noteq> [] \<and> take 1 url1 \<noteq> ''/'' then ''/'' @ url1 else url1)
                  else url1);
          url3 = (if u_scheme p \<noteq> [] then u_scheme p @ '':'' @ url2 else url2);
          url4 = (if u_query p \<noteq> [] then url3 @ ''?'' @ u_query p else url3)
      in if u_fragment p \<noteq> [] then url4 @ ''#'' @ u_fragment p else url4)"

text \<open>\<^verbatim>\<open>segments[1:-1] = filter(None, segments[1:-1])\<close>.\<close>

definition drop_empty_middle :: "string list \<Rightarrow> string list" where
  "drop_empty_middle segs =
     (case segs of
        [] \<Rightarrow> []
      | [x] \<Rightarrow> [x]
      | x # y # ys \<Rightarrow> x # filter (\<lambda>s. s \<noteq> []) (butlast (y # ys)) @ [last (y # ys)])"

fun resolve_segments :: "string list \<Rightarrow> string list \<Rightarrow> string list" where
  "resolve_segments resolved [] = resolved"
| "resolve_segments resolved (seg # segs) =
     (if seg = ''..'' then resolve_segments (butlast resolved) segs
      else if seg = ''.'' then resolve_segments resolved segs
      else resolve_segments (resolved @ [seg]) segs)"

definition urljoin :: "string \<Rightarrow> string \<Rightarrow> string" where
  "urljoin base url =
     (if base = [] then url
      else if url = [] then base
      else
        (let b = urlparse base [];
             u = urlparse url (u_scheme b)
         in if u_scheme u \<noteq> u_scheme b \<or> u_scheme u \<notin> set uses_relative then url
            else if u_scheme u \<in> set uses_netloc \<and> u_netloc u \<noteq> [] then urlunparse u
            else
              (let u1 = (if u_scheme u \<in> set uses_netloc then u\<lparr>u_netloc := u_netloc b\<rparr> else u)
               in if u_path u1 = [] \<and> u_params u1 = [] then
                    urlunparse (u1\<lparr>u_path := u_path b, u_params := u_params b,
                                   u_query := (if u_query u1 = [] then u_query b else u_query u1)\<rparr>)
                  else
                    (let base_parts0 = split_on (CHR ''/'') (u_path b);
                         base_parts = (if last base_parts0 \<noteq> [] then butlast base_parts0
                                       else base_parts0);
                         segments = (if take 1 (u_path u1) = ''/''
                                     then split_on (CHR ''/'') (u_path u1)
                                     else drop_empty_middle
                                            (base_parts @ split_on (CHR ''/'') (u_path u1)));
                         resolved0 = resolve_segments [] segments;
                         resolved = (if last segments \<in> {''.'', ''..''} then resolved0 @ [[]]
                                     else resolved0);
                         joined = join_with ''/'' resolved
                     in urlunparse (u1\<lparr>u_path := (if joined = [] then ''/'' else joined)\<rparr>)))))"

text \<open>\<^verbatim>\<open>urllib.parse.quote_plus\<close> with no extra safe characters, byte by byte.\<close>

definition hex_digit :: "nat \<Rightarrow> char" where
  "hex_digit n = ''0123456789ABCDEF'' ! n"

definition quote_plus :: "string \<Rightarrow> string" where
  "quote_plus s =
     concat (map (\<lambda>c. if c \<in> set (ascii_letters @ ascii_digits @ ''_.-~'') then [c]
                       else if c = CHR '' '' then ''+''
                       else [CHR ''%'', hex_digit (of_char c div 16), hex_digit (of_char c mod 16)]) s)"

definition urlencode :: "(string \<times> string) list \<Rightarrow> string" where
  "urlencode kvs = join_with ''&'' (map (\<lambda>(k, v). quote_plus k @ ''='' @ quote_plus v) kvs)"

text \<open>
  A query parameter value: None, a list (each element given by its \<^verbatim>\<open>str()\<close>), or any
  other value, given by its \<^verbatim>\<open>str()\<close>.
\<close>

datatype param_value =
    ParamNone
  | ParamList "string list"
  | ParamOther string

definition lstrip_slash :: "string \<Rightarrow> string" where
  "lstrip_slash s = dropWhile (\<lambda>c. c = CHR ''/'') s"

definition rstrip_slash :: "string \<Rightarrow> string" where
  "rstrip_slash s = rev (dropWhile (\<lambda>c. c = CHR ''/'') (rev s))"

text \<open>\<^verbatim>\<open>clean_params[key] = ...\<close> on a dict kept as an association list.\<close>

fun dict_set :: "(string \<times> 'v) list \<Rightarrow> string \<Rightarrow> 'v \<Rightarrow> (string \<times> 'v) list" where
  "dict_set [] k v = [(k, v)]"
| "dict_set ((k', v') # kvs) k v =
     (if k' = k then (k', v) # kvs else (k', v') # dict_set kvs k v)"

fun clean_params :: "(string \<times> param_value) list \<Rightarrow> (string \<times> string) list \<Rightarrow> (string \<times> string) list" where
  "clean_params [] acc = acc"
| "clean_params ((key, val) # rest) acc =
     (case val of
        ParamNone \<Rightarrow> clean_params rest acc
      | ParamList vs \<Rightarrow> clean_params rest (dict_set acc key (join_with '','' vs))
      | ParamOther s \<Rightarrow> clean_params rest (dict_set acc key s))"

text \<open>\<^verbatim>\<open>HTTPClient._build_url\<close>; \<open>c\<close> holds the base URL as the constructor stored it.\<close>

definition build_url :: "config \<Rightarrow> string \<Rightarrow> (string \<times> param_value) list option \<Rightarrow> string" where
  "build_url c path params =
     (let url = urljoin (base_url c @ ''/'') (lstrip_slash path)
      in case params of
           None \<Rightarrow> url
         | Some ps \<Rightarrow>
             if ps = [] then url
             else (let cleaned = clean_params ps []
                   in if cleaned \<noteq> [] then url @ ''?'' @ urlencode cleaned else url))"

text \<open>\<^verbatim>\<open>HTTPClient.__init__\<close>, the configuration part: the base URL loses its trailing slashes.\<close>

definition HTTPClient_config :: "string \<Rightarrow> string \<Rightarrow> int \<Rightarrow> string \<Rightarrow> bool \<Rightarrow> config" where
  "HTTPClient_config url timeout_text n agent dbg =
     \<lparr>base_url = rstrip_slash url, timeout_repr = timeout_text, retries = n,
      user_agent = agent, debug = dbg\<rparr>"

subsection \<open>Response unwrapping and the request verbs\<close>

text \<open>
  What \<^verbatim>\<open>_extract_data\<close> returns: the raw text of a body that is not JSON, the
  unwrapped JSON value, or the value(s) built by the requested model class \<open>'m\<close>.
\<close>

datatype 'm extracted =
    RawText string
  | Plain json
  | Model 'm
  | Models "'m list"

text \<open>
  \<^verbatim>\<open>[model_class.model_validate(item) for item in result_data]\<close>: the first failing
  item raises. \<open>validate\<close> stands for \<^verbatim>\<open>model_validate\<close> of the requested class
  (\<open>Inl\<close> is the text of the validation error it raises).
\<close>

fun validate_all :: "(json \<Rightarrow> string + 'm) \<Rightarrow> json list \<Rightarrow> string + 'm list" where
  "validate_all validate [] = Inr []"
| "validate_all validate (item # items) =
     (case validate item of
        Inl e \<Rightarrow> Inl e
      | Inr m \<Rightarrow>
          (case validate_all validate items of
             Inl e \<Rightarrow> Inl e
           | Inr ms \<Rightarrow> Inr (m # ms)))"

text \<open>The first half of \<^verbatim>\<open>_extract_data\<close>: the envelope, after the body parsed.\<close>

definition unwrap_envelope :: "int \<Rightarrow> json \<Rightarrow> py_exc + json" where
  "unwrap_envelope status data =
     (case data of
        JObj kvs \<Rightarrow>
          (case map_of kvs ''success'' of
             None \<Rightarrow> Inr data
           | Some success \<Rightarrow>
               if \<not> truthy success then
                 (let error_msg = dict_get kvs ''error'' (JStr ''API request failed'')
                  in Inl (Gotrs ((GotrsError GotrsErrorK error_msg)\<lparr>err_status_code := Some status\<rparr>)))
               else Inr (dict_get kvs ''data'' data))
      | _ \<Rightarrow> Inr data)"

definition extract_data :: "(json \<Rightarrow> string + 'm) option \<Rightarrow> response \<Rightarrow> py_exc + 'm extracted" where
  "extract_data model_class response =
     (case resp_json response of
        None \<Rightarrow> Inr (RawText (resp_text response))
      | Some data \<Rightarrow>
          (case unwrap_envelope (resp_status_code response) data of
             Inl e \<Rightarrow> Inl e
           | Inr result_data \<Rightarrow>
               (case model_class of
                  None \<Rightarrow> Inr (Plain result_data)
                | Some validate \<Rightarrow>
                    if result_data = JNull then Inr (Plain result_data)
                    else
                      (case result_data of
                         JArr items \<Rightarrow>
                           (case validate_all validate items of
                              Inl e \<Rightarrow> Inl (OtherException e)
                            | Inr ms \<Rightarrow> Inr (Models ms))
                       | _ \<Rightarrow>
                           (case validate result_data of
                              Inl e \<Rightarrow> Inl (OtherException e)
                            | Inr m \<Rightarrow> Inr (Model m))))))"

text \<open>\<^verbatim>\<open>d.update(other)\<close> on dicts kept as association lists.\<close>

definition dict_update :: "(string \<times> 'v) list \<Rightarrow> (string \<times> 'v) list \<Rightarrow> (string \<times> 'v) list" where
  "dict_update d other = foldl (\<lambda>acc (k, v). dict_set acc k v) d other"

text \<open>
  \<^verbatim>\<open>HTTPClient._prepare_headers\<close>. \<open>now\<close> is the clock at the \<^verbatim>\<open>is_expired()\<close> test,
  \<open>now'\<close> the clock at the test repeated inside \<^verbatim>\<open>refresh()\<close>.
\<close>

definition prepare_headers ::
  "(string \<Rightarrow> string + datetime) \<Rightarrow> int \<Rightarrow> int \<Rightarrow> authenticator \<Rightarrow> (string \<times> string) list option
   \<Rightarrow> (py_exc + (string \<times> string) list) \<times> authenticator" where
  "prepare_headers fromiso now now' auth headers =
     (let final0 = [(''Content-Type'', ''application/json'')];
          final1 = (case headers of None \<Rightarrow> final0 | Some hs \<Rightarrow> dict_update final0 hs)
      in if is_expired now auth then
           (case refresh fromiso now' auth of
              (Inl e, auth1) \<Rightarrow> (Inl e, auth1)
            | (Inr u, auth1) \<Rightarrow> (Inr (dict_update final1 (get_auth_headers auth1)), auth1))
         else (Inr (dict_update final1 (get_auth_headers auth)), auth))"

record request =
  req_method :: string
  req_url :: string
  req_headers :: "(string \<times> string) list"

record client =
  cl_config :: config
  cl_auth :: authenticator

text \<open>
  \<^verbatim>\<open>HTTPClient.get\<close>. The transport answers each attempt of a request; the result comes
  with the client (its authenticator may have been refreshed) and the effects.
\<close>

definition get ::
  "(string \<Rightarrow> string + datetime) \<Rightarrow> int \<Rightarrow> int \<Rightarrow> (request \<Rightarrow> nat \<Rightarrow> outcome)
   \<Rightarrow> (json \<Rightarrow> string + 'm) option \<Rightarrow> client \<Rightarrow> string \<Rightarrow> (string \<times> param_value) list option
   \<Rightarrow> (string \<times> string) list option \<Rightarrow> io
   \<Rightarrow> (py_exc + 'm extracted) \<times> client \<times> io" where
  "get fromiso now now' transport model_class cl path params headers w =
     (let url = build_url (cl_config cl) path params
      in case prepare_headers fromiso now now' (cl_auth cl) headers of
           (Inl e, auth1) \<Rightarrow> (Inl e, cl\<lparr>cl_auth := auth1\<rparr>, w)
         | (Inr request_headers, auth1) \<Rightarrow>
             (case make_request_with_retries (cl_config cl)
                     (transport \<lparr>req_method = ''GET'', req_url = url,
                                 req_headers = request_headers\<rparr>) w of
                (Inl e, w1) \<Rightarrow> (Inl e, cl\<lparr>cl_auth := auth1\<rparr>, w1)
              | (Inr response, w1) \<Rightarrow>
                  (case extract_data model_class response of
                     Inl e \<Rightarrow> (Inl e, cl\<lparr>cl_auth := auth1\<rparr>, w1)
                   | Inr v \<Rightarrow> (Inr v, cl\<lparr>cl_auth := auth1\<rparr>, w1))))"

section \<open>Retry and no-retry laws\<close>

lemma backoff_calls [simp]: "calls (backoff c what attempt w) = calls w"
  by (simp add: backoff_def Let_def)

lemma backoff_sleeps [simp]: "sleeps (backoff c what attempt w) = sleeps w @ [2 ^ attempt]"
  by (simp add: backoff_def Let_def)

lemma attempt_loop_server_errors_then_success:
  assumes "\<forall>i. a \<le> i \<and> i < a + j \<longrightarrow> (\<exists>r. transport i = Response r \<and> resp_status_code r = 500)"
    and "transport (a + j) = Response ok"
    and "resp_status_code ok = 200"
    and "int (a + j) \<le> retries c"
    and "j < n"
  shows "fst (attempt_loop c transport n a lx w) = Inr ok
         \<and> calls (snd (attempt_loop c transport n a lx w)) = calls w + j + 1
         \<and> sleeps (snd (attempt_loop c transport n a lx w))
             = sleeps w @ map (\<lambda>i. 2 ^ i) [a..<a + j]"
  using assms
proof (induction j arbitrary: a n lx w)
  case 0
  then obtain m where n: "n = Suc m" by (cases n) auto
  from 0 show ?case
    by (simp add: n is_success_def Let_def)
next
  case (Suc j)
  then obtain m where n: "n = Suc m" by (cases n) auto
  from Suc.prems(1) obtain r where r: "transport a = Response r" "resp_status_code r = 500"
    by fastforce
  have lt: "int a < retries c" using Suc.prems(4) by simp
  let ?w = "backoff c ''Request failed'' a (w\<lparr>calls := calls w + 1\<rparr>)"
  have step: "attempt_loop c transport n a lx w = attempt_loop c transport m (a + 1) lx ?w"
    using r lt by (simp add: n is_success_def Let_def)
  have "fst (attempt_loop c transport m (a + 1) lx ?w) = Inr ok
        \<and> calls (snd (attempt_loop c transport m (a + 1) lx ?w)) = calls ?w + j + 1
        \<and> sleeps (snd (attempt_loop c transport m (a + 1) lx ?w))
            = sleeps ?w @ map (\<lambda>i. 2 ^ i) [a + 1..<a + 1 + j]"
  proof (rule Suc.IH)
    show "\<forall>i. a + 1 \<le> i \<and> i < a + 1 + j
            \<longrightarrow> (\<exists>r. transport i = Response r \<and> resp_status_code r = 500)"
      using Suc.prems(1) by simp
    show "transport (a + 1 + j) = Response ok" using Suc.prems(2) by simp
    show "resp_status_code ok = 200" by fact
    show "int (a + 1 + j) \<le> retries c" using Suc.prems(4) by simp
    show "j < m" using Suc.prems(5) n by simp
  qed
  moreover have "[a..<a + Suc j] = a # [a + 1..<a + 1 + j]"
    by (simp add: upt_rec)
  ultimately show ?case
    by (simp add: step)
qed

text \<open>
  C1. Retry law. If \<open>k\<close> is below the configured retry count, the transport answers 500 on
  attempts \<open>0..k-1\<close> and 200 on attempt \<open>k\<close>, then the loop returns that 200 response,
  the transport has been called exactly \<open>k + 1\<close> times, and exactly the \<open>k\<close> delays
  \<open>2^0, 2^1, ..., 2^(k-1)\<close> have been slept, in this order.
\<close>

theorem retry_law:
  assumes "int k < retries c"
    and "\<forall>i<k. \<exists>r. transport i = Response r \<and> resp_status_code r = 500"
    and "transport k = Response ok"
    and "resp_status_code ok = 200"
  shows "fst (make_request_with_retries c transport w) = Inr ok
         \<and> calls (snd (make_request_with_retries c transport w)) = calls w + (k + 1)
         \<and> sleeps (snd (make_request_with_retries c transport w))
             = sleeps w @ map (\<lambda>i. 2 ^ i) [0..<k]"
proof -
  have "k < nat (retries c + 1)" using assms(1) by simp
  then show ?thesis
    using attempt_loop_server_errors_then_success
            [of 0 k transport ok c "nat (retries c + 1)" None w] assms
    by (simp add: make_request_with_retries_def)
qed

definition io0 :: io where
  "io0 = \<lparr>calls = 0, sleeps = [], printed = []\<rparr>"

definition default_config :: config where
  "default_config =
     \<lparr>base_url = ''https://x.test'', timeout_repr = ''30.0'', retries = 3,
      user_agent = ''gotrs-python-sdk/1.0.0'', debug = False\<rparr>"

definition plain_response :: "int \<Rightarrow> response" where
  "plain_response s =
     \<lparr>resp_status_code = s, resp_headers = [], resp_text = ''body'', resp_json = None\<rparr>"

definition flaky_transport :: "nat \<Rightarrow> outcome" where
  "flaky_transport i = (if i < 2 then Response (plain_response 500) else Response (plain_response 200))"

theorem retry_law_witness:
  "int 2 < retries default_config
   \<and> flaky_transport 0 = Response (plain_response 500)
   \<and> flaky_transport 1 = Response (plain_response 500)
   \<and> flaky_transport 2 = Response (plain_response 200)
   \<and> fst (make_request_with_retries default_config flaky_transport io0) = Inr (plain_response 200)
   \<and> calls (snd (make_request_with_retries default_config flaky_transport io0)) = 3
   \<and> sleeps (snd (make_request_with_retries default_config flaky_transport io0)) = [1, 2]"
proof -
  have h1: "int 2 < retries default_config" by (simp add: default_config_def)
  have h2: "\<forall>i<2. \<exists>r. flaky_transport i = Response r \<and> resp_status_code r = 500"
    by (simp add: flaky_transport_def plain_response_def)
  have h3: "flaky_transport 2 = Response (plain_response 200)"
    by (simp add: flaky_transport_def)
  have h4: "resp_status_code (plain_response 200) = 200" by (simp add: plain_response_def)
  have h5: "flaky_transport 0 = Response (plain_response 500)
            \<and> flaky_transport 1 = Response (plain_response 500)"
    by (simp add: flaky_transport_def)
  have "[0..<2] = [0, Suc 0]" by (simp add: upt_rec)
  with retry_law [OF h1 h2 h3 h4, of io0] h1 h3 h5 show ?thesis
    by (simp add: io0_def)
qed

section \<open>Error classification\<close>

definition is_taxonomy_error :: "py_exc \<Rightarrow> bool" where
  "is_taxonomy_error e = (case e of Gotrs g \<Rightarrow> True | _ \<Rightarrow> False)"

text \<open>The error data \<^verbatim>\<open>_handle_error\<close> reads its fields from is a dict.\<close>

definition body_is_dict_or_not_json :: "response \<Rightarrow> bool" where
  "body_is_dict_or_not_json r =
     (case resp_json r of None \<Rightarrow> True | Some (JObj kvs) \<Rightarrow> True | Some j \<Rightarrow> False)"

lemma client_error_not_retried:
  assumes "transport attempt = Response r"
    and "400 \<le> resp_status_code r" and "resp_status_code r < 500"
    and "resp_status_code r \<noteq> 429"
  shows "attempt_loop c transport (Suc n) attempt lx w
         = (Inl (handle_error r), w\<lparr>calls := calls w + 1\<rparr>)"
  using assms by (simp add: is_success_def Let_def)

lemma client_error_on_first_attempt:
  assumes "0 \<le> retries c"
    and "transport 0 = Response r"
    and "400 \<le> resp_status_code r" and "resp_status_code r < 500"
    and "resp_status_code r \<noteq> 429"
  shows "make_request_with_retries c transport w
         = (Inl (handle_error r), w\<lparr>calls := calls w + 1\<rparr>)"
proof -
  from assms(1) obtain n where n: "nat (retries c + 1) = Suc n"
    by (cases "nat (retries c + 1)") auto
  show ?thesis
    unfolding make_request_with_retries_def n
    using assms(2-5) by (rule client_error_not_retried)
qed

lemma handle_error_taxonomy:
  "body_is_dict_or_not_json r \<Longrightarrow> is_taxonomy_error (handle_error r)"
  by (auto simp: body_is_dict_or_not_json_def handle_error_def is_taxonomy_error_def Let_def
      split: option.splits json.splits)

lemma handle_error_rate_limit:
  assumes "body_is_dict_or_not_json r" and "resp_status_code r = 429"
  shows "\<exists>g. handle_error r = Gotrs g \<and> err_kind g = RateLimitErrorK
             \<and> err_status_code g = Some 429 \<and> err_code g = Some (JStr ''RATE_LIMITED'')
             \<and> err_retry_after g =
                 (if header_contains (resp_headers r) ''Retry-After''
                  then py_int (header_get (resp_headers r) ''Retry-After'') else None)"
  using assms
  by (auto simp: body_is_dict_or_not_json_def handle_error_def RateLimitError_def GotrsError_def
      Let_def split: option.splits json.splits)

lemma handle_error_server_error:
  assumes "body_is_dict_or_not_json r"
    and "500 \<le> resp_status_code r" and "resp_status_code r < 600"
  shows "\<exists>g kvs. handle_error r = Gotrs g \<and> err_kind g = ServerErrorK
             \<and> err_status_code g = Some (resp_status_code r)
             \<and> err_response_data g = Some (JObj kvs)
             \<and> err_code g = Some (dict_get kvs ''code'' (JStr []))"
  using assms
  by (auto simp: body_is_dict_or_not_json_def handle_error_def ServerError_def GotrsError_def
      Let_def split: option.splits json.splits)

lemma py_int_30: "py_int ''30'' = Some 30"
  by (simp add: py_int_def int_max_str_digits_def strip_def is_space_def is_digit_def
      digit_val_def)

lemma py_int_abc: "py_int ''abc'' = None"
  by (simp add: py_int_def int_max_str_digits_def strip_def is_space_def is_digit_def
      digit_val_def)

definition json_list_response :: "int \<Rightarrow> (string \<times> string) list \<Rightarrow> string \<Rightarrow> response" where
  "json_list_response s hs item =
     \<lparr>resp_status_code = s, resp_headers = hs,
      resp_text = ''[\"'' @ item @ ''\"]'', resp_json = Some (JArr [JStr item])\<rparr>"

definition error_only_response :: "int \<Rightarrow> response" where
  "error_only_response s =
     \<lparr>resp_status_code = s, resp_headers = [], resp_text = ''{\"error\": \"boom\"}'',
      resp_json = Some (JObj [(''error'', JStr ''boom'')])\<rparr>"

text \<open>
  C3. Failing input: the transport answers the first attempt with status 400 and the JSON
  body \<open>["name is required"]\<close>. The loop stops at once (one call, no sleep), but what it
  raises is the \<^verbatim>\<open>AttributeError\<close> of \<^verbatim>\<open>error_data.get\<close> on a list, not an error of
  the taxonomy.
\<close>

theorem client_error_list_body_raises_attribute_error:
  "make_request_with_retries default_config
     (\<lambda>i. Response (json_list_response 400 [] ''name is required'')) io0
     = (Inl (AttributeError
               ([CHR 0x27] @ ''list'' @ [CHR 0x27] @ '' object has no attribute ''
                @ [CHR 0x27] @ ''get'' @ [CHR 0x27])),
        \<lparr>calls = 1, sleeps = [], printed = []\<rparr>)"
  by (simp add: make_request_with_retries_def default_config_def json_list_response_def io0_def
      is_success_def handle_error_def no_get_attribute_def Let_def eval_nat_numeral)

text \<open>
  C6. Failing input: every attempt is answered with status 500 and the body
  \<open>{"error": "boom"}\<close>, which has no \<open>code\<close> field. After the retries the loop raises a
  ServerError with status 500 whose code is the empty string that \<^verbatim>\<open>_handle_error\<close>
  passes, not \<open>SERVER_ERROR\<close>.
\<close>

theorem server_error_code_is_empty_string:
  "make_request_with_retries default_config (\<lambda>i. Response (error_only_response 500)) io0
     = (Inl (Gotrs \<lparr>err_kind = ServerErrorK, err_message = JStr ''boom'',
                    err_status_code = Some 500, err_code = Some (JStr []),
                    err_details = Some (JStr []),
                    err_response_data = Some (JObj [(''error'', JStr ''boom'')]),
                    err_retry_after = None\<rparr>),
        \<lparr>calls = 4, sleeps = [1, 2, 4], printed = []\<rparr>)
   \<and> JStr [] \<noteq> JStr ''SERVER_ERROR''"
  by (simp add: make_request_with_retries_def default_config_def error_only_response_def io0_def
      is_success_def handle_error_def ServerError_def GotrsError_def dict_get_def backoff_def
      Let_def eval_nat_numeral)

text \<open>
  C7. Failing input: every attempt is answered with status 429, the header
  \<open>Retry-After: abc\<close> and the JSON body \<open>["slow down"]\<close>. After the retries
  \<^verbatim>\<open>_handle_error\<close> raises the \<^verbatim>\<open>AttributeError\<close> of \<^verbatim>\<open>error_data.get\<close> before it
  looks at the header; no RateLimitError is raised.
\<close>

theorem rate_limit_list_body_raises_attribute_error:
  "make_request_with_retries default_config
     (\<lambda>i. Response (json_list_response 429 [(''Retry-After'', ''abc'')] ''slow down'')) io0
     = (Inl (AttributeError
               ([CHR 0x27] @ ''list'' @ [CHR 0x27] @ '' object has no attribute ''
                @ [CHR 0x27] @ ''get'' @ [CHR 0x27])),
        \<lparr>calls = 4, sleeps = [1, 2, 4], printed = []\<rparr>)"
  by (simp add: make_request_with_retries_def default_config_def json_list_response_def io0_def
      is_success_def handle_error_def no_get_attribute_def backoff_def Let_def
      eval_nat_numeral)

section \<open>The response envelope\<close>

definition envelope_response :: "string \<Rightarrow> json \<Rightarrow> response" where
  "envelope_response body_text body =
     \<lparr>resp_status_code = 200, resp_headers = [(''Content-Type'', ''application/json'')],
      resp_text = body_text, resp_json = Some body\<rparr>"

definition failure_with_message_only :: response where
  "failure_with_message_only =
     envelope_response ''{\"success\": false, \"message\": \"boom\"}''
       (JObj [(''success'', JBool False), (''message'', JStr ''boom'')])"

definition failure_with_error :: response where
  "failure_with_error =
     envelope_response ''{\"success\": false, \"error\": \"boom\"}''
       (JObj [(''success'', JBool False), (''error'', JStr ''boom'')])"

definition success_with_data :: response where
  "success_with_data =
     envelope_response ''{\"success\": true, \"data\": {\"id\": 7}}''
       (JObj [(''success'', JBool True), (''data'', JObj [(''id'', JInt 7)])])"

lemma unwrap_envelope_failure:
  "map_of kvs ''success'' = Some (JBool False) \<Longrightarrow>
   unwrap_envelope status (JObj kvs)
   = Inl (Gotrs ((GotrsError GotrsErrorK (dict_get kvs ''error'' (JStr ''API request failed'')))
                   \<lparr>err_status_code := Some status\<rparr>))"
  by (simp add: unwrap_envelope_def)

lemma unwrap_envelope_success:
  "map_of kvs ''success'' = Some (JBool True) \<Longrightarrow>
   unwrap_envelope status (JObj kvs) = Inr (dict_get kvs ''data'' (JObj kvs))"
  by (simp add: unwrap_envelope_def)

text \<open>
  A verb whose first attempt is answered with a successful response hands that response to
  \<^verbatim>\<open>_extract_data\<close>: what the caller gets is what \<^verbatim>\<open>_extract_data\<close> returns or raises.
\<close>

lemma get_extracts_first_success:
  assumes "prepare_headers fromiso now now' (cl_auth cl) headers = (Inr hs, auth1)"
    and "transport \<lparr>req_method = ''GET'', req_url = build_url (cl_config cl) path params,
                     req_headers = hs\<rparr> 0 = Response r"
    and "is_success r"
    and "0 \<le> retries (cl_config cl)"
  shows "get fromiso now now' transport model_class cl path params headers w
         = (extract_data model_class r, cl\<lparr>cl_auth := auth1\<rparr>, w\<lparr>calls := calls w + 1\<rparr>)"
proof -
  from assms(4) obtain n where n: "nat (retries (cl_config cl) + 1) = Suc n"
    by (cases "nat (retries (cl_config cl) + 1)") auto
  from assms(2,3)
  have "make_request_with_retries (cl_config cl)
          (transport \<lparr>req_method = ''GET'', req_url = build_url (cl_config cl) path params,
                      req_headers = hs\<rparr>) w
        = (Inr r, w\<lparr>calls := calls w + 1\<rparr>)"
    by (simp add: make_request_with_retries_def n Let_def)
  with assms(1) show ?thesis
    by (cases "extract_data model_class r") (simp_all add: get_def Let_def)
qed

text \<open>
  What \<^verbatim>\<open>_extract_data\<close> does with an envelope: a false \<open>success\<close> raises a GotrsError
  with the body's \<open>error\<close> field, or \<open>API request failed\<close> when there is none, and the
  response's status, whatever target shape was asked for; a true \<open>success\<close> with no target
  shape returns the \<open>data\<close> field, or the whole body when \<open>data\<close> is absent.
\<close>

lemma extract_data_envelope:
  "(resp_json r = Some (JObj kvs) \<and> map_of kvs ''success'' = Some (JBool False) \<longrightarrow>
      extract_data model_class r
      = Inl (Gotrs ((GotrsError GotrsErrorK (dict_get kvs ''error'' (JStr ''API request failed'')))
                      \<lparr>err_status_code := Some (resp_status_code r)\<rparr>)))
   \<and> (resp_json r = Some (JObj kvs) \<and> map_of kvs ''success'' = Some (JBool True) \<longrightarrow>
      extract_data None r = Inr (Plain (dict_get kvs ''data'' (JObj kvs))))"
  by (simp add: extract_data_def unwrap_envelope_failure unwrap_envelope_success)

lemma extract_data_envelope_examples:
  "extract_data (None :: (json \<Rightarrow> string + unit) option) failure_with_error
     = Inl (Gotrs \<lparr>err_kind = GotrsErrorK, err_message = JStr ''boom'',
                    err_status_code = Some 200, err_code = None, err_details = None,
                    err_response_data = None, err_retry_after = None\<rparr>)
   \<and> extract_data (None :: (json \<Rightarrow> string + unit) option) success_with_data
     = Inr (Plain (JObj [(''id'', JInt 7)]))"
  by (simp add: extract_data_def unwrap_envelope_def failure_with_error_def
      success_with_data_def envelope_response_def dict_get_def GotrsError_def)

text \<open>
  C2. Failing input: the 200 response with body \<open>{"success": false, "message": "boom"}\<close>.
  \<^verbatim>\<open>_extract_data\<close> raises a GotrsError with status 200 whose message is the default
  \<open>API request failed\<close>, not the body's \<open>message\<close> field \<open>boom\<close>: it reads the \<open>error\<close>
  field only, where \<^verbatim>\<open>_handle_error\<close> reads \<open>message\<close> and then \<open>error\<close>.
\<close>

theorem envelope_message_field_not_surfaced:
  "extract_data (None :: (json \<Rightarrow> string + unit) option) failure_with_message_only
     = Inl (Gotrs \<lparr>err_kind = GotrsErrorK, err_message = JStr ''API request failed'',
                    err_status_code = Some 200, err_code = None, err_details = None,
                    err_response_data = None, err_retry_after = None\<rparr>)
   \<and> JStr ''API request failed'' \<noteq> JStr ''boom''"
  by (simp add: extract_data_def unwrap_envelope_def failure_with_message_only_def
      envelope_response_def dict_get_def GotrsError_def)

section \<open>URL building\<close>

lemma lstrip_slash_leading: "lstrip_slash (CHR ''/'' # path) = lstrip_slash path"
  by (simp add: lstrip_slash_def)

text \<open>
  C9. Against the base URL \<open>https://x.test\<close> the paths \<open>/a/b\<close> and \<open>a/b\<close> both build
  \<open>https://x.test/a/b\<close>; and for every client, path and parameters, a leading slash on the
  path does not change the URL that is built.
\<close>

theorem build_url_leading_slash_insensitive:
  "build_url (HTTPClient_config ''https://x.test'' t n ua d) ''/a/b'' None = ''https://x.test/a/b''
   \<and> build_url (HTTPClient_config ''https://x.test'' t n ua d) ''a/b'' None = ''https://x.test/a/b''
   \<and> build_url c (CHR ''/'' # path) params = build_url c path params"
proof -
  have b: "base_url (HTTPClient_config ''https://x.test'' t n ua d) = ''https://x.test''"
    by (simp add: HTTPClient_config_def rstrip_slash_def)
  have j: "urljoin ''https://x.test/'' ''a/b'' = ''https://x.test/a/b''"
    by (simp add: urljoin_def urlparse_def urlunparse_def split_scheme_def split_netloc_def
        partition_first_def uses_relative_def uses_netloc_def uses_params_def scheme_chars_def
        ascii_letters_def ascii_digits_def ascii_lower_def drop_empty_middle_def Let_def)
  have l: "lstrip_slash ''/a/b'' = ''a/b''" "lstrip_slash ''a/b'' = ''a/b''"
    by (simp_all add: lstrip_slash_def)
  show ?thesis
    by (simp add: build_url_def b j l lstrip_slash_leading)
qed

end
